theory Spec2Isabelle
  imports Complex_Main "HOL-Library.Word"
begin

section \<open>Numbers, vectors and matrices\<close>

text \<open>
  The module \<^verbatim>\<open>src/geo/projection/globe_util.js\<close> computes with JavaScript numbers.
  They are embedded as the real numbers: the arithmetic, the comparisons and the
  transcendental functions of the code become those of \<^typ>\<open>real\<close>.  Rounding, NaN and
  the infinities of IEEE 754 are outside this embedding.  In particular a division by
  zero, which gives an infinity or NaN in JavaScript, is \<open>0\<close> in HOL: a statement below
  that depends on the value of a quotient keeps its divisor away from zero.  (The
  cotangent \<open>1 / tan \<theta>\<close> of a right angle is \<open>0\<close> in HOL as it is in mathematics.)

  An array of three numbers (\<^verbatim>\<open>Vec3\<close>) is a triple; the index of a component
  (\<^verbatim>\<open>dim\<close>, always \<open>0\<close>, \<open>1\<close> or \<open>2\<close> in the code) is a value of \<open>dim\<close>.
\<close>

type_synonym vec3 = "real \<times> real \<times> real"

datatype dim = D0 | D1 | D2

fun vidx :: "vec3 \<Rightarrow> dim \<Rightarrow> real" where
  "vidx (x, y, z) D0 = x"
| "vidx (x, y, z) D1 = y"
| "vidx (x, y, z) D2 = z"

subsection \<open>Helpers of \<^verbatim>\<open>util/util.js\<close> and \<^verbatim>\<open>style-spec/util/interpolate.js\<close>\<close>

text \<open>Modelled from the spec: \<^verbatim>\<open>degToRad\<close> of \<^verbatim>\<open>util/util.js\<close> (not among the sources),
  the conversion of an angle in degrees to radians.\<close>
definition degToRad :: "real \<Rightarrow> real" where
  "degToRad a = a * pi / 180"

text \<open>Modelled from the spec: \<^verbatim>\<open>clamp\<close> of \<^verbatim>\<open>util/util.js\<close> (not among the sources),
  which limits \<open>n\<close> to the interval from \<open>lo\<close> to \<open>hi\<close>.\<close>
definition clamp :: "real \<Rightarrow> real \<Rightarrow> real \<Rightarrow> real" where
  "clamp n lo hi = min hi (max lo n)"

text \<open>Modelled from the spec: \<^verbatim>\<open>smoothstep\<close> of \<^verbatim>\<open>util/util.js\<close> (not among the sources),
  the cubic Hermite ramp between the two edges \<open>e0\<close> and \<open>e1\<close> (spec 4.3).\<close>
definition smoothstep :: "real \<Rightarrow> real \<Rightarrow> real \<Rightarrow> real" where
  "smoothstep e0 e1 x = (let t = clamp ((x - e0) / (e1 - e0)) 0 1 in t * t * (3 - 2 * t))"

text \<open>Modelled from the spec: \<^verbatim>\<open>number\<close> and \<^verbatim>\<open>array\<close> of
  \<^verbatim>\<open>style-spec/util/interpolate.js\<close> (not among the sources), the linear interpolation
  of two numbers and, componentwise, of two arrays by the factor \<open>t\<close>.\<close>
definition interpolate :: "real \<Rightarrow> real \<Rightarrow> real \<Rightarrow> real" where
  "interpolate x y t = x * (1 - t) + y * t"

fun interpolateArray :: "vec3 \<Rightarrow> vec3 \<Rightarrow> real \<Rightarrow> vec3" where
  "interpolateArray (x0, y0, z0) (x1, y1, z1) t =
     (interpolate x0 x1 t, interpolate y0 y1 t, interpolate z0 z1 t)"

subsection \<open>The operations of the library gl-matrix that the module calls\<close>

text \<open>Each function returns the value that gl-matrix writes to its \<^verbatim>\<open>out\<close> argument.\<close>

fun vec3_sub :: "vec3 \<Rightarrow> vec3 \<Rightarrow> vec3" where
  "vec3_sub (ax, ay, az) (bx, by, bz) = (ax - bx, ay - by, az - bz)"

fun vec3_add :: "vec3 \<Rightarrow> vec3 \<Rightarrow> vec3" where
  "vec3_add (ax, ay, az) (bx, by, bz) = (ax + bx, ay + by, az + bz)"

fun vec3_scale :: "vec3 \<Rightarrow> real \<Rightarrow> vec3" where
  "vec3_scale (ax, ay, az) s = (ax * s, ay * s, az * s)"

fun vec3_scaleAndAdd :: "vec3 \<Rightarrow> vec3 \<Rightarrow> real \<Rightarrow> vec3" where
  "vec3_scaleAndAdd (ax, ay, az) (bx, by, bz) s = (ax + bx * s, ay + by * s, az + bz * s)"

fun vec3_negate :: "vec3 \<Rightarrow> vec3" where
  "vec3_negate (ax, ay, az) = (- ax, - ay, - az)"

fun vec3_dot :: "vec3 \<Rightarrow> vec3 \<Rightarrow> real" where
  "vec3_dot (ax, ay, az) (bx, by, bz) = ax * bx + ay * by + az * bz"

fun vec3_cross :: "vec3 \<Rightarrow> vec3 \<Rightarrow> vec3" where
  "vec3_cross (ax, ay, az) (bx, by, bz) =
     (ay * bz - az * by, az * bx - ax * bz, ax * by - ay * bx)"

fun vec3_min :: "vec3 \<Rightarrow> vec3 \<Rightarrow> vec3" where
  "vec3_min (ax, ay, az) (bx, by, bz) = (min ax bx, min ay by, min az bz)"

fun vec3_max :: "vec3 \<Rightarrow> vec3 \<Rightarrow> vec3" where
  "vec3_max (ax, ay, az) (bx, by, bz) = (max ax bx, max ay by, max az bz)"

text \<open>\<^verbatim>\<open>vec3.normalize\<close> leaves the zero vector as it is.\<close>
fun vec3_normalize :: "vec3 \<Rightarrow> vec3" where
  "vec3_normalize (x, y, z) =
     (let len = x * x + y * y + z * z;
          len' = (if len > 0 then 1 / sqrt len else len)
      in (x * len', y * len', z * len'))"

section \<open>Arcs and their local extrema\<close>

text \<open>The class \<^verbatim>\<open>Arc\<close>; its constructor is \<open>new_Arc\<close>.\<close>
record Arc =
  arc_a :: vec3
  arc_b :: vec3
  arc_center :: vec3
  arc_angle :: real

definition new_Arc :: "vec3 \<Rightarrow> vec3 \<Rightarrow> vec3 \<Rightarrow> Arc" where
  "new_Arc p0 p1 center =
     (let a = vec3_sub p0 center;
          b = vec3_sub p1 center;
          an = vec3_normalize a;
          bn = vec3_normalize b
      in \<lparr>arc_a = a, arc_b = b, arc_center = center, arc_angle = arccos (vec3_dot an bn)\<rparr>)"

definition slerp :: "real \<Rightarrow> real \<Rightarrow> real \<Rightarrow> real \<Rightarrow> real" where
  "slerp a b angle t =
     (let sina = sin angle
      in a * (sin ((1.0 - t) * angle) / sina) + b * (sin (t * angle) / sina))"

text \<open>The parameter \<^verbatim>\<open>t\<close> that \<^verbatim>\<open>localExtremum\<close> computes once the angle is not zero.\<close>
definition localExtremum_t :: "Arc \<Rightarrow> dim \<Rightarrow> real" where
  "localExtremum_t arc d =
     (if vidx (arc_a arc) d = 0 then (1.0 / arc_angle arc) * 0.5 * pi
      else 1.0 / arc_angle arc *
           arctan (vidx (arc_b arc) d / vidx (arc_a arc) d / sin (arc_angle arc)
                   - 1.0 / tan (arc_angle arc)))"

text \<open>\<^verbatim>\<open>localExtremum\<close>; the result \<^verbatim>\<open>null\<close> is \<open>None\<close>.\<close>
definition localExtremum :: "Arc \<Rightarrow> dim \<Rightarrow> real option" where
  "localExtremum arc d =
     (if arc_angle arc = 0 then None
      else let t = localExtremum_t arc d
           in if t < 0 \<or> t > 1 then None
              else Some (slerp (vidx (arc_a arc) d) (vidx (arc_b arc) d) (arc_angle arc)
                           (clamp t 0.0 1.0)
                         + vidx (arc_center arc) d))"

section \<open>Matrices\<close>

text \<open>A \<^verbatim>\<open>Mat4\<close> is a \<^verbatim>\<open>Float64Array(16)\<close> in column-major order: the sixteen
  arguments of \<open>Mat4\<close> are the entries \<^verbatim>\<open>m[0]\<close> to \<^verbatim>\<open>m[15]\<close>.\<close>

datatype mat4 = Mat4 real real real real  real real real real  real real real real  real real real real

definition mat4_identity :: mat4 where
  "mat4_identity = Mat4 1 0 0 0  0 1 0 0  0 0 1 0  0 0 0 1"

text \<open>\<^verbatim>\<open>mat4.fromScaling\<close> and \<^verbatim>\<open>mat4.fromTranslation\<close> write all sixteen entries of
  \<^verbatim>\<open>out\<close>, whatever it held before.\<close>

fun mat4_fromScaling :: "mat4 \<Rightarrow> vec3 \<Rightarrow> mat4" where
  "mat4_fromScaling out (x, y, z) = Mat4 x 0 0 0  0 y 0 0  0 0 z 0  0 0 0 1"

fun mat4_fromTranslation :: "mat4 \<Rightarrow> vec3 \<Rightarrow> mat4" where
  "mat4_fromTranslation out (x, y, z) = Mat4 1 0 0 0  0 1 0 0  0 0 1 0  x y z 1"

text \<open>\<^verbatim>\<open>mat4.translate(out, a, v)\<close> and \<^verbatim>\<open>mat4.scale(out, a, v)\<close>, always called with
  \<^verbatim>\<open>out\<close> and \<^verbatim>\<open>a\<close> the same matrix.\<close>

fun mat4_translate :: "mat4 \<Rightarrow> vec3 \<Rightarrow> mat4" where
  "mat4_translate (Mat4 a0 a1 a2 a3  a4 a5 a6 a7  a8 a9 a10 a11  a12 a13 a14 a15) (x, y, z) =
     Mat4 a0 a1 a2 a3  a4 a5 a6 a7  a8 a9 a10 a11
          (a0 * x + a4 * y + a8 * z + a12)
          (a1 * x + a5 * y + a9 * z + a13)
          (a2 * x + a6 * y + a10 * z + a14)
          (a3 * x + a7 * y + a11 * z + a15)"

fun mat4_scale :: "mat4 \<Rightarrow> vec3 \<Rightarrow> mat4" where
  "mat4_scale (Mat4 a0 a1 a2 a3  a4 a5 a6 a7  a8 a9 a10 a11  a12 a13 a14 a15) (x, y, z) =
     Mat4 (a0 * x) (a1 * x) (a2 * x) (a3 * x)
          (a4 * y) (a5 * y) (a6 * y) (a7 * y)
          (a8 * z) (a9 * z) (a10 * z) (a11 * z)
          a12 a13 a14 a15"

fun mat4_rotateX :: "mat4 \<Rightarrow> real \<Rightarrow> mat4" where
  "mat4_rotateX (Mat4 a0 a1 a2 a3  a4 a5 a6 a7  a8 a9 a10 a11  a12 a13 a14 a15) rad =
     (let s = sin rad; c = cos rad
      in Mat4 a0 a1 a2 a3
              (a4 * c + a8 * s) (a5 * c + a9 * s) (a6 * c + a10 * s) (a7 * c + a11 * s)
              (a8 * c - a4 * s) (a9 * c - a5 * s) (a10 * c - a6 * s) (a11 * c - a7 * s)
              a12 a13 a14 a15)"

fun mat4_rotateY :: "mat4 \<Rightarrow> real \<Rightarrow> mat4" where
  "mat4_rotateY (Mat4 a0 a1 a2 a3  a4 a5 a6 a7  a8 a9 a10 a11  a12 a13 a14 a15) rad =
     (let s = sin rad; c = cos rad
      in Mat4 (a0 * c - a8 * s) (a1 * c - a9 * s) (a2 * c - a10 * s) (a3 * c - a11 * s)
              a4 a5 a6 a7
              (a0 * s + a8 * c) (a1 * s + a9 * c) (a2 * s + a10 * c) (a3 * s + a11 * c)
              a12 a13 a14 a15)"

definition glMatrix_EPSILON :: real where
  "glMatrix_EPSILON = 0.000001"

text \<open>\<^verbatim>\<open>mat4.fromRotation(out, rad, axis)\<close> returns \<^verbatim>\<open>null\<close> (here \<open>None\<close>) and leaves
  \<^verbatim>\<open>out\<close> untouched when the axis is shorter than \<^verbatim>\<open>EPSILON\<close>.\<close>
fun mat4_fromRotation :: "real \<Rightarrow> vec3 \<Rightarrow> mat4 option" where
  "mat4_fromRotation rad (x, y, z) =
     (let len = sqrt (x * x + y * y + z * z)
      in if len < glMatrix_EPSILON then None
         else let len' = 1 / len;
                  x = x * len'; y = y * len'; z = z * len';
                  s = sin rad; c = cos rad; t = 1 - c
              in Some (Mat4 (x * x * t + c) (y * x * t + z * s) (z * x * t - y * s) 0
                            (x * y * t - z * s) (y * y * t + c) (z * y * t + x * s) 0
                            (x * z * t + y * s) (y * z * t - x * s) (z * z * t + c) 0
                            0 0 0 1))"

text \<open>\<^verbatim>\<open>vec3.transformMat4\<close>: the homogeneous coordinate \<^verbatim>\<open>w\<close> is replaced by \<open>1\<close> when
  it is zero (\<^verbatim>\<open>w = w || 1.0\<close>).\<close>
fun vec3_transformMat4 :: "vec3 \<Rightarrow> mat4 \<Rightarrow> vec3" where
  "vec3_transformMat4 (x, y, z) (Mat4 m0 m1 m2 m3  m4 m5 m6 m7  m8 m9 m10 m11  m12 m13 m14 m15) =
     (let w = m3 * x + m7 * y + m11 * z + m15;
          w = (if w = 0 then 1.0 else w)
      in ((m0 * x + m4 * y + m8 * z + m12) / w,
          (m1 * x + m5 * y + m9 * z + m13) / w,
          (m2 * x + m6 * y + m10 * z + m14) / w))"

text \<open>\<^verbatim>\<open>vec3.angle\<close>: the cosine is taken as \<open>0\<close> when one of the vectors is zero.\<close>
fun vec3_angle :: "vec3 \<Rightarrow> vec3 \<Rightarrow> real" where
  "vec3_angle (ax, ay, az) (bx, by, bz) =
     (let mag1 = sqrt (ax * ax + ay * ay + az * az);
          mag2 = sqrt (bx * bx + by * by + bz * bz);
          mag = mag1 * mag2;
          cosine = (if mag = 0 then mag else vec3_dot (ax, ay, az) (bx, by, bz) / mag)
      in arccos (min (max cosine (- 1)) 1))"

section \<open>Geographic values and tiles\<close>

text \<open>The value classes \<^verbatim>\<open>LngLat\<close>, \<^verbatim>\<open>LngLatBounds\<close>, \<^verbatim>\<open>Point\<close>, \<^verbatim>\<open>Aabb\<close> and
  \<^verbatim>\<open>CanonicalTileID\<close>, with the methods that the module calls.\<close>

record LngLat =
  lng :: real
  lat :: real

record LngLatBounds =
  bounds_sw :: LngLat
  bounds_ne :: LngLat

definition getNorth :: "LngLatBounds \<Rightarrow> real" where "getNorth b = lat (bounds_ne b)"
definition getSouth :: "LngLatBounds \<Rightarrow> real" where "getSouth b = lat (bounds_sw b)"
definition getWest :: "LngLatBounds \<Rightarrow> real" where "getWest b = lng (bounds_sw b)"
definition getEast :: "LngLatBounds \<Rightarrow> real" where "getEast b = lng (bounds_ne b)"

text \<open>Modelled from the spec: \<^verbatim>\<open>LngLatBounds.getCenter\<close> and \<^verbatim>\<open>LngLatBounds.contains\<close> of
  \<^verbatim>\<open>geo/lng_lat_bounds.js\<close> (not among the sources): the midpoint of the rectangle, and
  whether a geographic point lies in the rectangle, whose longitudes may wrap.\<close>
definition getCenter :: "LngLatBounds \<Rightarrow> LngLat" where
  "getCenter b = \<lparr>lng = (lng (bounds_sw b) + lng (bounds_ne b)) / 2,
                  lat = (lat (bounds_sw b) + lat (bounds_ne b)) / 2\<rparr>"

definition contains :: "LngLatBounds \<Rightarrow> LngLat \<Rightarrow> bool" where
  "contains b p =
     (let containsLatitude = (lat (bounds_sw b) \<le> lat p \<and> lat p \<le> lat (bounds_ne b));
          containsLongitude =
            (if lng (bounds_sw b) > lng (bounds_ne b)
             then lng (bounds_sw b) \<ge> lng p \<and> lng p \<ge> lng (bounds_ne b)
             else lng (bounds_sw b) \<le> lng p \<and> lng p \<le> lng (bounds_ne b))
      in containsLatitude \<and> containsLongitude)"

record Point =
  point_x :: real
  point_y :: real

record Aabb =
  aabb_min :: vec3
  aabb_max :: vec3

text \<open>Modelled from the spec: \<^verbatim>\<open>Aabb.getCorners\<close> of \<^verbatim>\<open>util/primitives.js\<close> (not among
  the sources), the eight corners of the box.\<close>
definition getCorners :: "Aabb \<Rightarrow> vec3 list" where
  "getCorners box =
     (case (aabb_min box, aabb_max box) of
        ((mn0, mn1, mn2), (mx0, mx1, mx2)) \<Rightarrow>
          [(mn0, mn1, mn2), (mx0, mn1, mn2), (mx0, mx1, mn2), (mn0, mx1, mn2),
           (mn0, mn1, mx2), (mx0, mn1, mx2), (mx0, mx1, mx2), (mn0, mx1, mx2)])"

record CanonicalTileID =
  tile_z :: nat
  tile_x :: nat
  tile_y :: nat

text \<open>The expression \<^verbatim>\<open>1 << z\<close>: a shift of a 32-bit integer by \<open>z\<close> modulo 32.\<close>
definition shl1 :: "nat \<Rightarrow> real" where
  "shl1 z = real_of_int (sint (push_bit (z mod 32) (1 :: 32 word)))"

subsection \<open>The functions of \<^verbatim>\<open>geo/mercator_coordinate.js\<close>\<close>

text \<open>Modelled from the spec: \<^verbatim>\<open>geo/mercator_coordinate.js\<close> is not among the sources.
  Its functions convert between geographic coordinates and the unit square of the
  Web Mercator projection (spec 3), where the latitude \<open>85.051129\<close> maps to the border.\<close>

definition MAX_MERCATOR_LATITUDE :: real where
  "MAX_MERCATOR_LATITUDE = 85.051129"

definition lngFromMercatorX :: "real \<Rightarrow> real" where
  "lngFromMercatorX x = x * 360 - 180"

definition latFromMercatorY :: "real \<Rightarrow> real" where
  "latFromMercatorY y = (let y2 = 180 - y * 360 in 360 / pi * arctan (exp (y2 * pi / 180)) - 90)"

definition mercatorXfromLng :: "real \<Rightarrow> real" where
  "mercatorXfromLng l = (180 + l) / 360"

definition mercatorYfromLat :: "real \<Rightarrow> real" where
  "mercatorYfromLat l = (180 - (180 / pi * ln (tan (pi / 4 + l * pi / 360)))) / 360"

definition earthRadius :: real where
  "earthRadius = 6371008.8"

definition mercatorZfromAltitude :: "real \<Rightarrow> real \<Rightarrow> real" where
  "mercatorZfromAltitude altitude l = altitude / (2 * pi * earthRadius * cos (l * pi / 180))"

section \<open>Constants of the module\<close>

text \<open>\<^verbatim>\<open>EXTENT\<close> is imported from \<^verbatim>\<open>data/extent.js\<close>, which is not among the sources:
  it is the parameter \<open>ext\<close> of every definition that depends on it.\<close>

definition GLOBE_ZOOM_THRESHOLD_MIN :: real where "GLOBE_ZOOM_THRESHOLD_MIN = 5"
definition GLOBE_ZOOM_THRESHOLD_MAX :: real where "GLOBE_ZOOM_THRESHOLD_MAX = 6"

definition GLOBE_RADIUS :: "real \<Rightarrow> real" where
  "GLOBE_RADIUS ext = ext / pi / 2.0"

definition GLOBE_METERS_TO_ECEF :: "real \<Rightarrow> real" where
  "GLOBE_METERS_TO_ECEF ext = mercatorZfromAltitude 1 0.0 * 2.0 * GLOBE_RADIUS ext * pi"

definition GLOBE_NORMALIZATION_BIT_RANGE :: nat where
  "GLOBE_NORMALIZATION_BIT_RANGE = 15"

definition GLOBE_NORMALIZATION_MASK :: real where
  "GLOBE_NORMALIZATION_MASK =
     real_of_int (sint (push_bit (GLOBE_NORMALIZATION_BIT_RANGE - 1) (1 :: 32 word)) - 1)"

definition GLOBE_MIN :: "real \<Rightarrow> real" where "GLOBE_MIN ext = - GLOBE_RADIUS ext"
definition GLOBE_MAX :: "real \<Rightarrow> real" where "GLOBE_MAX ext = GLOBE_RADIUS ext"

definition GLOBE_LOW_ZOOM_TILE_AABBS :: "real \<Rightarrow> Aabb list" where
  "GLOBE_LOW_ZOOM_TILE_AABBS ext =
     [\<lparr>aabb_min = (GLOBE_MIN ext, GLOBE_MIN ext, GLOBE_MIN ext),
       aabb_max = (GLOBE_MAX ext, GLOBE_MAX ext, GLOBE_MAX ext)\<rparr>,
      \<lparr>aabb_min = (GLOBE_MIN ext, GLOBE_MIN ext, GLOBE_MIN ext), aabb_max = (0, 0, GLOBE_MAX ext)\<rparr>,
      \<lparr>aabb_min = (0, GLOBE_MIN ext, GLOBE_MIN ext), aabb_max = (GLOBE_MAX ext, 0, GLOBE_MAX ext)\<rparr>,
      \<lparr>aabb_min = (GLOBE_MIN ext, 0, GLOBE_MIN ext), aabb_max = (0, GLOBE_MAX ext, GLOBE_MAX ext)\<rparr>,
      \<lparr>aabb_min = (0, 0, GLOBE_MIN ext), aabb_max = (GLOBE_MAX ext, GLOBE_MAX ext, GLOBE_MAX ext)\<rparr>]"

text \<open>\<^verbatim>\<open>Number.MAX_VALUE\<close>, the largest finite double.\<close>
definition Number_MAX_VALUE :: real where
  "Number_MAX_VALUE = (2 ^ 53 - 1) * 2 ^ 971"

datatype error = AssertionError | TypeError

section \<open>Tiles on the globe\<close>

definition tileCornersToBounds :: "CanonicalTileID \<Rightarrow> LngLatBounds" where
  "tileCornersToBounds tid =
     (let s = 1.0 / shl1 (tile_z tid);
          sw = \<lparr>lng = lngFromMercatorX (real (tile_x tid) * s),
                lat = latFromMercatorY ((real (tile_y tid) + 1) * s)\<rparr>;
          ne = \<lparr>lng = lngFromMercatorX ((real (tile_x tid) + 1) * s),
                lat = latFromMercatorY (real (tile_y tid) * s)\<rparr>
      in \<lparr>bounds_sw = sw, bounds_ne = ne\<rparr>)"

text \<open>The optional argument \<^verbatim>\<open>radius\<close> is an option; without it the radius is
  \<^verbatim>\<open>GLOBE_RADIUS\<close>.\<close>
definition csLatLngToECEF :: "real \<Rightarrow> real \<Rightarrow> real \<Rightarrow> real \<Rightarrow> real option \<Rightarrow> vec3" where
  "csLatLngToECEF ext cosLat sinLat l radius =
     (let r = (case radius of None \<Rightarrow> GLOBE_RADIUS ext | Some r' \<Rightarrow> r');
          l = degToRad l;
          sx = cosLat * sin l * r;
          sy = - sinLat * r;
          sz = cosLat * cos l * r
      in (sx, sy, sz))"

definition boundsToECEF :: "real \<Rightarrow> LngLatBounds \<Rightarrow> vec3 list" where
  "boundsToECEF ext bounds =
     (let ny = degToRad (getNorth bounds);
          sy = degToRad (getSouth bounds);
          cosN = cos ny;
          cosS = cos sy;
          sinN = sin ny;
          sinS = sin sy;
          w = getWest bounds;
          e = getEast bounds
      in [csLatLngToECEF ext cosS sinS w None,
          csLatLngToECEF ext cosS sinS e None,
          csLatLngToECEF ext cosN sinN e None,
          csLatLngToECEF ext cosN sinN w None])"

text \<open>\<^verbatim>\<open>latLngToECEF\<close>: the failed assertion is the result \<open>Inl AssertionError\<close>.\<close>
definition latLngToECEF :: "real \<Rightarrow> real \<Rightarrow> real \<Rightarrow> real option \<Rightarrow> error + vec3" where
  "latLngToECEF ext la lo radius =
     (if la \<le> 90 \<and> la \<ge> - 90
      then Inr (csLatLngToECEF ext (cos (degToRad la)) (sin (degToRad la)) lo radius)
      else Inl AssertionError)"

text \<open>The loop of \<^verbatim>\<open>globeTileBounds\<close> over the corners.\<close>
fun boundsOfCorners :: "vec3 \<Rightarrow> vec3 \<Rightarrow> vec3 list \<Rightarrow> vec3 \<times> vec3" where
  "boundsOfCorners bMin bMax [] = (bMin, bMax)"
| "boundsOfCorners bMin bMax (p # ps) = boundsOfCorners (vec3_min bMin p) (vec3_max bMax p) ps"

text \<open>\<^verbatim>\<open>globeTileBounds\<close>: an index outside the table of the low zoom levels reads
  \<^verbatim>\<open>undefined\<close>, here \<open>None\<close>.\<close>
definition globeTileBounds :: "real \<Rightarrow> CanonicalTileID \<Rightarrow> Aabb option" where
  "globeTileBounds ext tid =
     (if tile_z tid \<le> 1
      then (let i = tile_z tid + tile_y tid * 2 + tile_x tid
            in if i < length (GLOBE_LOW_ZOOM_TILE_AABBS ext)
               then Some (GLOBE_LOW_ZOOM_TILE_AABBS ext ! i) else None)
      else let bounds = tileCornersToBounds tid;
               corners = boundsToECEF ext bounds;
               bMin = (GLOBE_MAX ext, GLOBE_MAX ext, GLOBE_MAX ext);
               bMax = (GLOBE_MIN ext, GLOBE_MIN ext, GLOBE_MIN ext);
               (bMin, bMax) = boundsOfCorners bMin bMax corners
           in Some \<lparr>aabb_min = bMin, aabb_max = bMax\<rparr>)"

text \<open>\<^verbatim>\<open>updateCorners\<close> changes its first three arguments in place; the model returns
  the new \<^verbatim>\<open>cornerMin\<close>, \<^verbatim>\<open>cornerMax\<close> and \<^verbatim>\<open>corners\<close>.\<close>
fun updateCorners :: "vec3 \<Rightarrow> vec3 \<Rightarrow> vec3 list \<Rightarrow> mat4 \<Rightarrow> real \<Rightarrow> vec3 \<times> vec3 \<times> vec3 list" where
  "updateCorners cornerMin cornerMax [] globeMatrix scale = (cornerMin, cornerMax, [])"
| "updateCorners cornerMin cornerMax (corner # corners) globeMatrix scale =
     (let corner = vec3_transformMat4 corner globeMatrix;
          corner = vec3_scale corner scale;
          cornerMin = vec3_min cornerMin corner;
          cornerMax = vec3_max cornerMax corner;
          (cornerMin, cornerMax, corners) = updateCorners cornerMin cornerMax corners globeMatrix scale
      in (cornerMin, cornerMax, corner # corners))"

definition mercatorTileCornersInCameraSpace ::
    "CanonicalTileID \<Rightarrow> real \<Rightarrow> real \<Rightarrow> real \<Rightarrow> real \<Rightarrow> vec3 list" where
  "mercatorTileCornersInCameraSpace tid numTiles mercatorScale camX camY =
     (let tileScale = 1.0 / shl1 (tile_z tid);
          w = real (tile_x tid) * tileScale;
          e = w + tileScale;
          n = real (tile_y tid) * tileScale;
          s = n + tileScale;
          tileCenterXFromCamera = (w + e) / 2 - camX;
          wrap = (if tileCenterXFromCamera > 0.5 then - 1
                  else if tileCenterXFromCamera < - 0.5 then 1 else 0);
          camX = camX * mercatorScale;
          camY = camY * mercatorScale;
          w = ((w + wrap) * numTiles - camX) * mercatorScale + camX;
          e = ((e + wrap) * numTiles - camX) * mercatorScale + camX;
          n = (n * numTiles - camY) * mercatorScale + camY;
          s = (s * numTiles - camY) * mercatorScale + camY
      in [(w, s, 0), (e, s, 0), (w, n, 0), (e, n, 0)])"

definition globeToMercatorTransition :: "real \<Rightarrow> real" where
  "globeToMercatorTransition zoom = smoothstep GLOBE_ZOOM_THRESHOLD_MIN GLOBE_ZOOM_THRESHOLD_MAX zoom"

text \<open>The fields of the external class \<^verbatim>\<open>Transform\<close> that the module reads.  The
  getter \<^verbatim>\<open>center\<close> returns the field \<^verbatim>\<open>_center\<close>, so both are \<open>tr_center\<close>.\<close>
record Transform =
  tr_worldSize :: real
  tr_globeMatrix :: mat4
  tr_center :: LngLat
  tr_point :: Point
  tr_zoom :: real
  tr_pixelsPerMercatorPixel :: real
  tr_angle :: real
  tr_pitch :: real
  tr_cameraToCenterDistance :: real
  tr_pixelsPerMeter :: real

text \<open>The expression \<^verbatim>\<open>e || d\<close> for a number or \<^verbatim>\<open>null\<close> \<open>e\<close>: the values \<^verbatim>\<open>null\<close> and
  \<open>0\<close> are falsy and give \<open>d\<close>.\<close>
definition js_or :: "real option \<Rightarrow> real \<Rightarrow> real" where
  "js_or e d = (case e of None \<Rightarrow> d | Some v \<Rightarrow> if v = 0 then d else v)"

text \<open>The initial value of \<^verbatim>\<open>arcBounds\<close> in \<^verbatim>\<open>aabbForTileOnGlobe\<close>.\<close>
definition initialArcBounds :: "Arc \<Rightarrow> vec3 \<Rightarrow> vec3" where
  "initialArcBounds closestArc arcA =
     (js_or (localExtremum closestArc D0) (vidx arcA D0),
      js_or (localExtremum closestArc D1) (vidx arcA D1),
      js_or (localExtremum closestArc D2) (vidx arcA D2))"

text \<open>The assignment \<^verbatim>\<open>v[2] = z\<close>.\<close>
fun vset2 :: "vec3 \<Rightarrow> real \<Rightarrow> vec3" where
  "vset2 (x, y, _) z = (x, y, z)"

text \<open>The local variables of \<^verbatim>\<open>aabbForTileOnGlobe\<close> when it returns from its last
  statement, that is for a tile with \<open>z > 1\<close> that does not contain the center.\<close>
record aabb_locals =
  loc_corners :: "vec3 list"
  loc_closestArcIdx :: nat
  loc_arcBounds :: vec3
  loc_cornerMin :: vec3
  loc_cornerMax :: vec3

text \<open>The choice of the closest edge in \<^verbatim>\<open>aabbForTileOnGlobe\<close>, from the computation of
  \<^verbatim>\<open>arcCenter\<close> to the end of the conditional on \<^verbatim>\<open>dx\<close> and \<^verbatim>\<open>dy\<close>: the values of
  \<^verbatim>\<open>camX\<close>, \<^verbatim>\<open>camY\<close>, \<^verbatim>\<open>closestArcIdx\<close> and \<^verbatim>\<open>arcCenter\<close> after it.\<close>
definition closestArcOfTile ::
    "real \<Rightarrow> Transform \<Rightarrow> real \<Rightarrow> LngLatBounds \<Rightarrow> real \<times> real \<times> nat \<times> vec3" where
  "closestArcOfTile ext tr numTiles bounds =
     (case tr_globeMatrix tr of Mat4 m0 m1 m2 m3  m4 m5 m6 m7  m8 m9 m10 m11  m12 m13 m14 m15 \<Rightarrow>
      let scale = numTiles / tr_worldSize tr;
          arcCenter = (m12 * scale, m13 * scale, m14 * scale);
          tileCenter = getCenter bounds;
          centerLat = clamp (lat (tr_center tr)) (- MAX_MERCATOR_LATITUDE) MAX_MERCATOR_LATITUDE;
          tileCenterLat = clamp (lat tileCenter) (- MAX_MERCATOR_LATITUDE) MAX_MERCATOR_LATITUDE;
          camX = mercatorXfromLng (lng (tr_center tr));
          camY = mercatorYfromLat centerLat;
          dx = camX - mercatorXfromLng (lng tileCenter);
          dy = camY - mercatorYfromLat tileCenterLat;
          dx = (if dx > 0.5 then dx - 1 else if dx < - 0.5 then dx + 1 else dx)
      in if \<bar>dx\<bar> > \<bar>dy\<bar> then (camX, camY, (if dx \<ge> 0 then 1 else 3), arcCenter)
         else let yAxis = (m4 * scale, m5 * scale, m6 * scale);
                  shift = - sin (degToRad (if dy \<ge> 0 then getSouth bounds else getNorth bounds))
                          * GLOBE_RADIUS ext
              in (camX, camY, (if dy \<ge> 0 then 0 else 2), vec3_scaleAndAdd arcCenter yAxis shift))"

text \<open>The part of \<^verbatim>\<open>aabbForTileOnGlobe\<close> after the test for the center, up to the last
  statement before \<^verbatim>\<open>return\<close>.  The loop over \<^verbatim>\<open>corners\<close> replaces each corner by its
  interpolation; \<^verbatim>\<open>arcA\<close> and \<^verbatim>\<open>arcB\<close> still refer to the arrays of before.\<close>
definition aabbArcPart ::
    "real \<Rightarrow> Transform \<Rightarrow> real \<Rightarrow> CanonicalTileID \<Rightarrow> LngLatBounds \<Rightarrow> vec3 list \<Rightarrow> vec3 \<Rightarrow> vec3
       \<Rightarrow> aabb_locals" where
  "aabbArcPart ext tr numTiles tileId bounds corners cornerMin cornerMax =
     (let (camX, camY, closestArcIdx, arcCenter) = closestArcOfTile ext tr numTiles bounds;
          arcA = corners ! closestArcIdx;
          arcB = corners ! ((closestArcIdx + 1) mod 4);
          closestArc = new_Arc arcA arcB arcCenter;
          arcBounds = initialArcBounds closestArc arcA;
          phase = globeToMercatorTransition (tr_zoom tr);
          (corners, arcBounds) =
            (if phase > 0.0 \<and> phase < 1.0
             then let mercatorCorners = mercatorTileCornersInCameraSpace tileId numTiles
                                          (tr_pixelsPerMercatorPixel tr) camX camY;
                      corners = map (\<lambda>i. interpolateArray (corners ! i) (mercatorCorners ! i) phase)
                                  [0 ..< length corners];
                      mercatorExtremum = interpolateArray (mercatorCorners ! closestArcIdx)
                                           (mercatorCorners ! ((closestArcIdx + 1) mod 4)) 0.5
                  in (corners, interpolateArray arcBounds mercatorExtremum phase)
             else (corners, arcBounds));
          cornerMin = vset2 cornerMin (min (vidx arcA D2) (vidx arcB D2));
          cornerMin = vec3_min cornerMin arcBounds;
          cornerMax = vec3_max cornerMax arcBounds
      in \<lparr>loc_corners = corners, loc_closestArcIdx = closestArcIdx, loc_arcBounds = arcBounds,
          loc_cornerMin = cornerMin, loc_cornerMax = cornerMax\<rparr>)"

text \<open>\<^verbatim>\<open>aabbForTileOnGlobe\<close>.  For \<open>z \<le> 1\<close> a tile outside the table makes
  \<^verbatim>\<open>aabb.getCorners()\<close> a call on \<^verbatim>\<open>undefined\<close>, the result \<open>Inl TypeError\<close>.\<close>
definition aabbForTileOnGlobe :: "real \<Rightarrow> Transform \<Rightarrow> real \<Rightarrow> CanonicalTileID \<Rightarrow> error + Aabb" where
  "aabbForTileOnGlobe ext tr numTiles tileId =
     (let scale = numTiles / tr_worldSize tr;
          mx = Number_MAX_VALUE;
          cornerMax = (- mx, - mx, - mx);
          cornerMin = (mx, mx, mx);
          m = tr_globeMatrix tr
      in if tile_z tileId \<le> 1
         then (case globeTileBounds ext tileId of
                 None \<Rightarrow> Inl TypeError
               | Some aabb \<Rightarrow>
                   let (cornerMin, cornerMax, corners) =
                         updateCorners cornerMin cornerMax (getCorners aabb) m scale
                   in Inr \<lparr>aabb_min = cornerMin, aabb_max = cornerMax\<rparr>)
         else let bounds = tileCornersToBounds tileId;
                  corners = boundsToECEF ext bounds;
                  (cornerMin, cornerMax, corners) = updateCorners cornerMin cornerMax corners m scale
              in if contains bounds (tr_center tr)
                 then let cornerMax = vset2 cornerMax 0.0;
                          point = tr_point tr;
                          center = (point_x point * scale, point_y point * scale, 0);
                          cornerMin = vec3_min cornerMin center;
                          cornerMax = vec3_max cornerMax center
                      in Inr \<lparr>aabb_min = cornerMin, aabb_max = cornerMax\<rparr>
                 else let l = aabbArcPart ext tr numTiles tileId bounds corners cornerMin cornerMax
                      in Inr \<lparr>aabb_min = loc_cornerMin l, aabb_max = loc_cornerMax l\<rparr>)"

text \<open>The locals of \<^verbatim>\<open>aabbForTileOnGlobe\<close> at its last \<^verbatim>\<open>return\<close>, for the same
  arguments.\<close>
definition aabbForTileOnGlobe_locals ::
    "real \<Rightarrow> Transform \<Rightarrow> real \<Rightarrow> CanonicalTileID \<Rightarrow> aabb_locals" where
  "aabbForTileOnGlobe_locals ext tr numTiles tileId =
     (let scale = numTiles / tr_worldSize tr;
          mx = Number_MAX_VALUE;
          bounds = tileCornersToBounds tileId;
          (cornerMin, cornerMax, corners) =
            updateCorners (mx, mx, mx) (- mx, - mx, - mx) (boundsToECEF ext bounds)
              (tr_globeMatrix tr) scale
      in aabbArcPart ext tr numTiles tileId bounds corners cornerMin cornerMax)"

section \<open>Normalization of ECEF positions\<close>

definition globeECEFNormalizationScale :: "Aabb \<Rightarrow> real" where
  "globeECEFNormalizationScale box =
     (case (aabb_min box, aabb_max box) of
        ((min0, min1, min2), (max0, max1, max2)) \<Rightarrow>
          GLOBE_NORMALIZATION_MASK / max (max (max0 - min0) (max1 - min1)) (max2 - min2))"

text \<open>Both functions write their result to the matrix \<^verbatim>\<open>tempMatrix\<close> that the module
  shares between them, and return it.  The second argument is the content of
  \<^verbatim>\<open>tempMatrix\<close> before the call, the result its content after the call.\<close>

definition globeNormalizeECEF :: "Aabb \<Rightarrow> mat4 \<Rightarrow> mat4" where
  "globeNormalizeECEF bounds tempMatrix =
     (let scale = globeECEFNormalizationScale bounds;
          m = mat4_fromScaling tempMatrix (scale, scale, scale)
      in mat4_translate m (vec3_negate (aabb_min bounds)))"

definition globeDenormalizeECEF :: "Aabb \<Rightarrow> mat4 \<Rightarrow> mat4" where
  "globeDenormalizeECEF bounds tempMatrix =
     (let m = mat4_fromTranslation tempMatrix (aabb_min bounds);
          scale = 1.0 / globeECEFNormalizationScale bounds
      in mat4_scale m (scale, scale, scale))"

section \<open>The globe matrix, the camera and the tilt\<close>

definition globeECEFUnitsToPixelScale :: "real \<Rightarrow> real \<Rightarrow> real" where
  "globeECEFUnitsToPixelScale ext worldSize =
     (let localRadius = ext / (2.0 * pi);
          wsRadius = worldSize / (2.0 * pi)
      in wsRadius / localRadius)"

definition calculateGlobePosMatrix :: "real \<Rightarrow> real \<Rightarrow> real \<Rightarrow> real \<Rightarrow> real \<Rightarrow> real \<Rightarrow> mat4" where
  "calculateGlobePosMatrix ext x y worldSize lo la =
     (let scale = globeECEFUnitsToPixelScale ext worldSize;
          offset = (x, y, - worldSize / (2.0 * pi));
          m = mat4_identity;
          m = mat4_translate m offset;
          m = mat4_scale m (scale, scale, scale);
          m = mat4_rotateX m (degToRad (- la));
          m = mat4_rotateY m (degToRad (- lo))
      in m)"

definition calculateGlobeMatrix :: "real \<Rightarrow> Transform \<Rightarrow> mat4" where
  "calculateGlobeMatrix ext tr =
     calculateGlobePosMatrix ext (point_x (tr_point tr)) (point_y (tr_point tr)) (tr_worldSize tr)
       (lng (tr_center tr)) (lat (tr_center tr))"

text \<open>\<^verbatim>\<open>cameraPositionInECEF\<close>.  A first rotation that is \<^verbatim>\<open>null\<close> makes the following
  \<^verbatim>\<open>vec3.transformMat4\<close> fail; the second call of \<^verbatim>\<open>mat4.fromRotation\<close> leaves
  \<^verbatim>\<open>rotation\<close> as it is when it returns \<^verbatim>\<open>null\<close>.\<close>
definition cameraPositionInECEF :: "real \<Rightarrow> Transform \<Rightarrow> error + vec3" where
  "cameraPositionInECEF ext tr =
     (case latLngToECEF ext (lat (tr_center tr)) (lng (tr_center tr)) None of
        Inl e \<Rightarrow> Inl e
      | Inr centerToPivot \<Rightarrow>
          let south = (0, 1, 0);
              axis = vec3_cross south centerToPivot
          in case mat4_fromRotation (- tr_angle tr) centerToPivot of
               None \<Rightarrow> Inl TypeError
             | Some rotation \<Rightarrow>
                 let axis = vec3_transformMat4 axis rotation;
                     rotation = (case mat4_fromRotation (- tr_pitch tr) axis of
                                   None \<Rightarrow> rotation | Some r \<Rightarrow> r);
                     pivotToCamera = vec3_normalize centerToPivot;
                     pivotToCamera = vec3_scale pivotToCamera
                       (tr_cameraToCenterDistance tr / tr_pixelsPerMeter tr * GLOBE_METERS_TO_ECEF ext);
                     pivotToCamera = vec3_transformMat4 pivotToCamera rotation
                 in Inr (vec3_add centerToPivot pivotToCamera))"

definition globeTiltAtLngLat :: "real \<Rightarrow> Transform \<Rightarrow> LngLat \<Rightarrow> error + real" where
  "globeTiltAtLngLat ext tr lngLat =
     (case latLngToECEF ext (lat lngLat) (lng lngLat) None of
        Inl e \<Rightarrow> Inl e
      | Inr centerToPoint \<Rightarrow>
          (case cameraPositionInECEF ext tr of
             Inl e \<Rightarrow> Inl e
           | Inr centerToCamera \<Rightarrow>
               let pointToCamera = vec3_sub centerToCamera centerToPoint
               in Inr (vec3_angle pointToCamera centerToPoint)))"

definition isLngLatBehindGlobe :: "real \<Rightarrow> Transform \<Rightarrow> LngLat \<Rightarrow> error + bool" where
  "isLngLatBehindGlobe ext tr lngLat =
     (case globeTiltAtLngLat ext tr lngLat of
        Inl e \<Rightarrow> Inl e
      | Inr tilt \<Rightarrow> Inr (tilt > pi / 2 * 1.01))"

section \<open>Notions of the statements\<close>

text \<open>A point lies in a box when each coordinate lies between the corresponding
  coordinates of \<^verbatim>\<open>min\<close> and \<^verbatim>\<open>max\<close>.\<close>
definition inBox :: "vec3 \<Rightarrow> Aabb \<Rightarrow> bool" where
  "inBox p box =
     (vidx (aabb_min box) D0 \<le> vidx p D0 \<and> vidx p D0 \<le> vidx (aabb_max box) D0
      \<and> vidx (aabb_min box) D1 \<le> vidx p D1 \<and> vidx p D1 \<le> vidx (aabb_max box) D1
      \<and> vidx (aabb_min box) D2 \<le> vidx p D2 \<and> vidx p D2 \<le> vidx (aabb_max box) D2)"

text \<open>The four corners of a tile with \<open>z > 1\<close> as \<^verbatim>\<open>updateCorners\<close> leaves them in
  \<^verbatim>\<open>aabbForTileOnGlobe\<close>: transformed by the globe matrix and scaled.\<close>
definition transformedCorners :: "real \<Rightarrow> Transform \<Rightarrow> real \<Rightarrow> CanonicalTileID \<Rightarrow> vec3 list" where
  "transformedCorners ext tr numTiles tileId =
     map (\<lambda>corner. vec3_scale (vec3_transformMat4 corner (tr_globeMatrix tr))
                      (numTiles / tr_worldSize tr))
       (boundsToECEF ext (tileCornersToBounds tileId))"

text \<open>The world-space position of the center of the map at height \<open>0\<close>, as
  \<^verbatim>\<open>aabbForTileOnGlobe\<close> computes it.\<close>
definition centerPoint :: "Transform \<Rightarrow> real \<Rightarrow> vec3" where
  "centerPoint tr numTiles =
     (point_x (tr_point tr) * (numTiles / tr_worldSize tr),
      point_y (tr_point tr) * (numTiles / tr_worldSize tr), 0)"

section \<open>Inputs of the examples\<close>

text \<open>A view of the globe at zoom \<open>5.5\<close>, in the middle of the transition, centered on
  longitude \<open>0\<close> and latitude \<open>0\<close>, without bearing and pitch, for tiles of \<open>512\<close> pixels;
  its globe matrix is the one that \<^verbatim>\<open>calculateGlobeMatrix\<close> builds for it.\<close>
definition worldSize_transition :: real where
  "worldSize_transition = 512 * 2 powr 5.5"

definition tr_transition_base :: Transform where
  "tr_transition_base =
     \<lparr>tr_worldSize = worldSize_transition, tr_globeMatrix = mat4_identity,
      tr_center = \<lparr>lng = 0, lat = 0\<rparr>,
      tr_point = \<lparr>point_x = worldSize_transition / 2, point_y = worldSize_transition / 2\<rparr>,
      tr_zoom = 5.5, tr_pixelsPerMercatorPixel = 1, tr_angle = 0, tr_pitch = 0,
      tr_cameraToCenterDistance = 1, tr_pixelsPerMeter = 1\<rparr>"

definition tr_transition :: "real \<Rightarrow> Transform" where
  "tr_transition ext =
     tr_transition_base \<lparr>tr_globeMatrix := calculateGlobeMatrix ext tr_transition_base\<rparr>"

text \<open>The tile of zoom \<open>2\<close> between the longitudes \<open>90\<close> and \<open>180\<close> south of the equator,
  which does not contain the center of the view \<open>tr_transition\<close>, and its western neighbour
  between the longitudes \<open>0\<close> and \<open>90\<close>.\<close>
definition tile_2_3_2 :: CanonicalTileID where
  "tile_2_3_2 = \<lparr>tile_z = 2, tile_x = 3, tile_y = 2\<rparr>"

definition tile_2_2_2 :: CanonicalTileID where
  "tile_2_2_2 = \<lparr>tile_z = 2, tile_x = 2, tile_y = 2\<rparr>"

text \<open>A view at the same zoom centered on longitude \<open>45\<close> and latitude \<open>-30\<close>, a position
  in the interior of \<open>tile_2_2_2\<close>; its point is the Mercator projection of the center
  scaled by the world size, and its globe matrix is the one that
  \<^verbatim>\<open>calculateGlobeMatrix\<close> builds for it.\<close>
definition tr_inside_base :: Transform where
  "tr_inside_base =
     \<lparr>tr_worldSize = worldSize_transition, tr_globeMatrix = mat4_identity,
      tr_center = \<lparr>lng = 45, lat = - 30\<rparr>,
      tr_point = \<lparr>point_x = mercatorXfromLng 45 * worldSize_transition,
                  point_y = mercatorYfromLat (- 30) * worldSize_transition\<rparr>,
      tr_zoom = 5.5, tr_pixelsPerMercatorPixel = 1, tr_angle = 0, tr_pitch = 0,
      tr_cameraToCenterDistance = 1, tr_pixelsPerMeter = 1\<rparr>"

definition tr_inside :: "real \<Rightarrow> Transform" where
  "tr_inside ext = tr_inside_base \<lparr>tr_globeMatrix := calculateGlobeMatrix ext tr_inside_base\<rparr>"

text \<open>Modelled from the spec: the constant \<^verbatim>\<open>EXTENT\<close> of \<^verbatim>\<open>data/extent.js\<close> (not among the
  sources).  The spec gives the radius of the globe as the tile extent divided by \<open>2\<pi>\<close>
  (section 3) and as \<open>512/(2\<pi>)\<close> (section 8), hence the extent \<open>512\<close>.\<close>
definition EXTENT :: real where
  "EXTENT = 512"

text \<open>An arc of about 16 degrees in the plane \<open>z = 0\<close>.\<close>
definition arc_flat :: Arc where
  "arc_flat = new_Arc (3, 4, 0) (4, 3, 0) (0, 0, 0)"

text \<open>An arc of 60 degrees whose two end points have the same \<open>y\<close>.\<close>
definition arc_sym :: Arc where
  "arc_sym = new_Arc (1, 1, 0) (0, 1, 1) (0, 0, 0)"

text \<open>The same arc moved along the \<open>y\<close> axis, so that its highest point has \<open>y = 0\<close>.\<close>
definition arc_low_p0 :: vec3 where
  "arc_low_p0 = (1, 1 - 2 / sqrt 3, 0)"

definition arc_low :: Arc where
  "arc_low = new_Arc arc_low_p0 (0, 1 - 2 / sqrt 3, 1) (0, - (2 / sqrt 3), 0)"

definition box_unit :: Aabb where
  "box_unit = \<lparr>aabb_min = (0, 0, 0), aabb_max = (1, 2, 4)\<rparr>"

text \<open>The latitude of the southern edge of both tiles, in radians, and the edge of
  \<open>tile_2_3_2\<close> closest to the center of the view \<open>tr_transition\<close>, as
  \<^verbatim>\<open>aabbForTileOnGlobe\<close> builds it for \<open>32\<close> tiles: the western edge, from the
  north-west to the south-west corner, about the center of the globe.\<close>
definition southRad :: real where
  "southRad = 2 * arctan (exp (- (pi / 2))) - pi / 2"

definition arc_tile :: Arc where
  "arc_tile = new_Arc (16 / pi + 16, 16, - (16 / pi))
                (16 * cos southRad / pi + 16, 16 - 16 * sin southRad / pi, - (16 / pi))
                (16, 16, - (16 / pi))"

section \<open>Properties\<close>

subsection \<open>Local extrema of an arc\<close>

lemma arc_flat_fields:
  "arc_a arc_flat = (3, 4, 0)" "arc_b arc_flat = (4, 3, 0)" "arc_center arc_flat = (0, 0, 0)"
  "arc_angle arc_flat = arccos (24 / 25)"
  by (simp_all add: arc_flat_def new_Arc_def Let_def)

lemma arccos_24_25: "0 < arccos (24 / 25 :: real)" "arccos (24 / 25 :: real) < pi / 2"
proof -
  show "0 < arccos (24 / 25 :: real)" by (simp add: arccos_lt_bounded)
  have "arccos (24 / 25 :: real) < arccos 0" by (subst arccos_less_mono) simp_all
  then show "arccos (24 / 25 :: real) < pi / 2" by simp
qed

lemma arc_sym_fields:
  "arc_a arc_sym = (1, 1, 0)" "arc_b arc_sym = (0, 1, 1)" "arc_center arc_sym = (0, 0, 0)"
  "arc_angle arc_sym = pi / 3"
  by (simp_all add: arc_sym_def new_Arc_def Let_def)

lemma arctan_inverse_sqrt_3: "arctan (1 / sqrt 3) = pi / 6"
  by (rule arctan_unique) (simp_all add: tan_30)

lemma arc_sym_t: "localExtremum_t arc_sym D1 = 1 / 2"
  by (simp add: localExtremum_t_def arc_sym_fields sin_60 tan_60 arctan_inverse_sqrt_3)

lemma arc_sym_extremum: "localExtremum arc_sym D1 = Some (2 / sqrt 3)"
  by (simp add: localExtremum_def arc_sym_t Let_def arc_sym_fields slerp_def clamp_def sin_60 sin_30)

lemma arc_flat_t: "1 < localExtremum_t arc_flat D2"
  using arccos_24_25 by (simp add: localExtremum_t_def arc_flat_fields field_simps)

lemma arc_flat_null: "localExtremum arc_flat D2 = None"
  using arc_flat_t by (simp add: localExtremum_def Let_def)

text \<open>Claim C2, as stated, fails: the arc \<open>arc_flat\<close> has an angle other than zero, and
  \<^verbatim>\<open>localExtremum\<close> returns \<^verbatim>\<open>null\<close> on its third axis, where the parameter \<open>t\<close> of
  the stationary point is greater than \<open>1\<close>.\<close>
theorem localExtremum_null_with_angle:
  "arc_angle arc_flat \<noteq> 0 \<and> 1 < localExtremum_t arc_flat D2 \<and> localExtremum arc_flat D2 = None"
  using arccos_24_25 arc_flat_t arc_flat_null by (simp add: arc_flat_fields)

text \<open>Claim C2, amended: \<^verbatim>\<open>localExtremum\<close> returns \<^verbatim>\<open>null\<close> exactly when the angle of the
  arc is zero or the parameter \<open>t\<close> of the stationary point lies outside \<open>[0, 1]\<close>; for
  an angle other than zero and \<open>t\<close> in \<open>[0, 1]\<close> it returns a number.\<close>
theorem localExtremum_null_iff:
  "localExtremum arc d = None \<longleftrightarrow>
     arc_angle arc = 0 \<or> localExtremum_t arc d < 0 \<or> localExtremum_t arc d > 1"
  by (simp add: localExtremum_def Let_def)








text \<open>The highest point of \<open>arc_low\<close> on the second axis is \<open>0\<close>.\<close>

lemma arc_low_fields:
  "arc_a arc_low = (1, 1, 0)" "arc_b arc_low = (0, 1, 1)"
  "arc_center arc_low = (0, - (2 / sqrt 3), 0)" "arc_angle arc_low = pi / 3"
  by (simp_all add: arc_low_def arc_low_p0_def new_Arc_def Let_def)

lemma arc_low_t: "localExtremum_t arc_low D1 = 1 / 2"
  by (simp add: localExtremum_t_def arc_low_fields sin_60 tan_60 arctan_inverse_sqrt_3)

lemma arc_low_extremum: "localExtremum arc_low D1 = Some 0"
  by (simp add: localExtremum_def arc_low_t Let_def arc_low_fields slerp_def clamp_def sin_60 sin_30)

subsection \<open>The transition between globe and Mercator\<close>

lemma smoothstep_polynomial_mono:
  fixes s t :: real
  assumes "0 \<le> s" "s \<le> t" "t \<le> 1"
  shows "s * s * (3 - 2 * s) \<le> t * t * (3 - 2 * t)"
proof -
  have "t * t * (3 - 2 * t) - s * s * (3 - 2 * s)
        = (t - s) * (3 * (t + s) - 2 * (t * t + t * s + s * s))"
    by (simp add: algebra_simps)
  moreover have "0 \<le> 3 * (t + s) - 2 * (t * t + t * s + s * s)"
  proof -
    have "0 \<le> t * (1 - t)" "0 \<le> s * (1 - s)" "0 \<le> t * (1 - s)" "0 \<le> s * (1 - t)"
      using assms by simp_all
    then show ?thesis by (simp add: algebra_simps)
  qed
  moreover have "0 \<le> t - s" using assms by simp
  ultimately show ?thesis by (metis diff_ge_0_iff_ge mult_nonneg_nonneg)
qed

lemmas transition_defs =
  globeToMercatorTransition_def smoothstep_def GLOBE_ZOOM_THRESHOLD_MIN_def
  GLOBE_ZOOM_THRESHOLD_MAX_def Let_def

text \<open>Claim C5: the thresholds are \<open>5\<close> and \<open>6\<close>; \<^verbatim>\<open>globeToMercatorTransition\<close> is \<open>0\<close> at
  and below the low threshold, \<open>1\<close> at and above the high threshold, monotonically
  non-decreasing (everywhere, hence between the thresholds) and continuous at both
  thresholds.\<close>
theorem globeToMercatorTransition_ramp:
  "GLOBE_ZOOM_THRESHOLD_MIN = 5 \<and> GLOBE_ZOOM_THRESHOLD_MAX = 6
   \<and> (\<forall>z. z \<le> GLOBE_ZOOM_THRESHOLD_MIN \<longrightarrow> globeToMercatorTransition z = 0)
   \<and> (\<forall>z. z \<ge> GLOBE_ZOOM_THRESHOLD_MAX \<longrightarrow> globeToMercatorTransition z = 1)
   \<and> (\<forall>x y. x \<le> y \<longrightarrow> globeToMercatorTransition x \<le> globeToMercatorTransition y)
   \<and> isCont globeToMercatorTransition GLOBE_ZOOM_THRESHOLD_MIN
   \<and> isCont globeToMercatorTransition GLOBE_ZOOM_THRESHOLD_MAX"
proof -
  have lo: "globeToMercatorTransition z = 0" if "z \<le> 5" for z
    using that by (simp add: transition_defs clamp_def max_def min_def)
  have hi: "globeToMercatorTransition z = 1" if "z \<ge> 6" for z
    using that by (simp add: transition_defs clamp_def max_def min_def)
  have mono: "globeToMercatorTransition x \<le> globeToMercatorTransition y" if "x \<le> y" for x y
  proof -
    have "0 \<le> clamp (x - 5) 0 1" "clamp (x - 5) 0 1 \<le> clamp (y - 5) 0 1" "clamp (y - 5) 0 1 \<le> 1"
      using that by (simp_all add: clamp_def)
    then show ?thesis
      using smoothstep_polynomial_mono[of "clamp (x - 5) 0 1" "clamp (y - 5) 0 1"]
      by (simp add: transition_defs)
  qed
  have cont: "isCont globeToMercatorTransition z" for z
    unfolding transition_defs clamp_def
    by (intro continuous_intros) simp_all
  show ?thesis
    using lo hi mono cont by (simp add: GLOBE_ZOOM_THRESHOLD_MIN_def GLOBE_ZOOM_THRESHOLD_MAX_def)
qed

theorem globeToMercatorTransition_ramp_witness:
  "globeToMercatorTransition 4 = 0 \<and> globeToMercatorTransition 5 = 0
   \<and> globeToMercatorTransition 6 = 1 \<and> globeToMercatorTransition 7 = 1
   \<and> globeToMercatorTransition 5.25 \<le> globeToMercatorTransition 5.75
   \<and> isCont globeToMercatorTransition 5 \<and> isCont globeToMercatorTransition 6"
  using globeToMercatorTransition_ramp
  by (simp add: GLOBE_ZOOM_THRESHOLD_MIN_def GLOBE_ZOOM_THRESHOLD_MAX_def)

subsection \<open>Geographic coordinates to ECEF\<close>

text \<open>Claim C9: \<^verbatim>\<open>latLngToECEF\<close> fails with an assertion violation for every latitude
  strictly outside \<open>[-90, 90]\<close>; for every latitude inside, it returns the point
  \<open>(cos lat \<sqdot> sin lng, - sin lat, cos lat \<sqdot> cos lng)\<close> scaled by the radius (the argument, or
  \<^verbatim>\<open>GLOBE_RADIUS\<close> without one), for any longitude; the longitude enters through sine and
  cosine only, so a full turn added to it changes nothing.\<close>
theorem latLngToECEF_assertion_and_value:
  "(la < - 90 \<or> la > 90 \<longrightarrow> latLngToECEF ext la lo r = Inl AssertionError)
   \<and> (- 90 \<le> la \<and> la \<le> 90 \<longrightarrow>
        latLngToECEF ext la lo r =
          (let R = (case r of None \<Rightarrow> GLOBE_RADIUS ext | Some r' \<Rightarrow> r')
           in Inr (cos (la * pi / 180) * sin (lo * pi / 180) * R,
                   - sin (la * pi / 180) * R,
                   cos (la * pi / 180) * cos (lo * pi / 180) * R))
        \<and> latLngToECEF ext la (lo + 360) r = latLngToECEF ext la lo r)"
  by (auto simp add: latLngToECEF_def csLatLngToECEF_def degToRad_def Let_def add_divide_distrib
       distrib_right split: option.splits)

theorem latLngToECEF_assertion_and_value_witness:
  "latLngToECEF EXTENT 91 0 None = Inl AssertionError
   \<and> latLngToECEF EXTENT (- 90.5) 10 (Some 2) = Inl AssertionError
   \<and> latLngToECEF EXTENT 0 0 (Some 2) = Inr (0, 0, 2)
   \<and> latLngToECEF EXTENT 90 90 None = Inr (0, - GLOBE_RADIUS EXTENT, 0)
   \<and> latLngToECEF EXTENT 0 360 (Some 2) = latLngToECEF EXTENT 0 0 (Some 2)"
  using latLngToECEF_assertion_and_value [of 91 EXTENT 0 None]
    latLngToECEF_assertion_and_value [of "- 90.5" EXTENT 10 "Some 2"]
    latLngToECEF_assertion_and_value [of 0 EXTENT 0 "Some 2"]
    latLngToECEF_assertion_and_value [of 90 EXTENT 90 None]
  by simp

subsection \<open>The bounds of the low zoom levels\<close>

lemma globeTileBounds_root_any_extent:
  "globeTileBounds ext \<lparr>tile_z = 0, tile_x = 0, tile_y = 0\<rparr>
    = Some \<lparr>aabb_min = (- (ext / (2 * pi)), - (ext / (2 * pi)), - (ext / (2 * pi))),
            aabb_max = (ext / (2 * pi), ext / (2 * pi), ext / (2 * pi))\<rparr>"
  by (simp add: globeTileBounds_def GLOBE_LOW_ZOOM_TILE_AABBS_def GLOBE_MIN_def GLOBE_MAX_def
      GLOBE_RADIUS_def)

text \<open>Claim C6: for the tile \<open>z = 0\<close>, \<open>x = 0\<close>, \<open>y = 0\<close>, \<^verbatim>\<open>globeTileBounds\<close> returns the box
  from \<open>(-R, -R, -R)\<close> to \<open>(R, R, R)\<close> with \<open>R = 512/(2\<pi>)\<close>, for the extent \<open>512\<close> of the spec.\<close>
theorem globeTileBounds_root:
  "globeTileBounds EXTENT \<lparr>tile_z = 0, tile_x = 0, tile_y = 0\<rparr>
    = Some \<lparr>aabb_min = (- (512 / (2 * pi)), - (512 / (2 * pi)), - (512 / (2 * pi))),
            aabb_max = (512 / (2 * pi), 512 / (2 * pi), 512 / (2 * pi))\<rparr>"
  by (simp add: globeTileBounds_root_any_extent EXTENT_def)

subsection \<open>Normalization and its inverse\<close>

lemma GLOBE_NORMALIZATION_MASK_value: "GLOBE_NORMALIZATION_MASK = 16383"
  by (simp add: GLOBE_NORMALIZATION_MASK_def GLOBE_NORMALIZATION_BIT_RANGE_def)

text \<open>Claim C4: for a box with \<open>min \<le> max\<close> on every axis and a positive extent on at least
  one, the matrices of \<^verbatim>\<open>globeNormalizeECEF\<close> and \<^verbatim>\<open>globeDenormalizeECEF\<close> are inverse to each
  other: the second applied to the image of a point under the first gives the point back,
  and the other way round, whatever the shared matrix held before each call.\<close>
theorem normalize_denormalize_inverse:
  assumes le: "\<forall>d. vidx (aabb_min B) d \<le> vidx (aabb_max B) d"
    and lt: "\<exists>d. vidx (aabb_min B) d < vidx (aabb_max B) d"
  shows "vec3_transformMat4 (vec3_transformMat4 P (globeNormalizeECEF B t1))
           (globeDenormalizeECEF B t2) = P
       \<and> vec3_transformMat4 (vec3_transformMat4 P (globeDenormalizeECEF B t2))
           (globeNormalizeECEF B t1) = P"
proof -
  obtain px py pz where P: "P = (px, py, pz)" by (cases P) auto
  obtain n0 n1 n2 where n: "aabb_min B = (n0, n1, n2)" by (cases "aabb_min B") auto
  obtain x0 x1 x2 where x: "aabb_max B = (x0, x1, x2)" by (cases "aabb_max B") auto
  define e where "e = max (max (x0 - n0) (x1 - n1)) (x2 - n2)"
  from le have "n0 \<le> x0" "n1 \<le> x1" "n2 \<le> x2"
    using n x by (metis vidx.simps(1), metis vidx.simps(2), metis vidx.simps(3))
  moreover from lt obtain d where "vidx (aabb_min B) d < vidx (aabb_max B) d" by blast
  then have "n0 < x0 \<or> n1 < x1 \<or> n2 < x2" using n x by (cases d) simp_all
  ultimately have e: "0 < e" unfolding e_def by auto
  have s: "globeECEFNormalizationScale B = 16383 / e"
    by (simp add: globeECEFNormalizationScale_def n x GLOBE_NORMALIZATION_MASK_value e_def)
  show ?thesis
    using e by (simp add: P globeNormalizeECEF_def globeDenormalizeECEF_def s n x Let_def field_simps)
qed

theorem normalize_denormalize_inverse_witness:
  "vec3_transformMat4 (vec3_transformMat4 (1, 2, 3) (globeNormalizeECEF box_unit mat4_identity))
     (globeDenormalizeECEF box_unit mat4_identity) = (1, 2, 3)
   \<and> vec3_transformMat4 (1, 2, 3) (globeNormalizeECEF box_unit mat4_identity)
       = (16383 / 4, 16383 / 2, 49149 / 4)"
proof -
  have le: "\<forall>d. vidx (aabb_min box_unit) d \<le> vidx (aabb_max box_unit) d"
  proof
    fix d show "vidx (aabb_min box_unit) d \<le> vidx (aabb_max box_unit) d"
      by (cases d) (simp_all add: box_unit_def)
  qed
  have lt: "\<exists>d. vidx (aabb_min box_unit) d < vidx (aabb_max box_unit) d"
    by (rule exI [of _ D0]) (simp add: box_unit_def)
  have "vec3_transformMat4 (1, 2, 3) (globeNormalizeECEF box_unit mat4_identity)
       = (16383 / 4, 16383 / 2, 49149 / 4)"
    by (simp add: globeNormalizeECEF_def globeECEFNormalizationScale_def box_unit_def
        GLOBE_NORMALIZATION_MASK_value Let_def)
  then show ?thesis
    using normalize_denormalize_inverse [OF le lt, of "(1, 2, 3)" mat4_identity mat4_identity]
    by simp
qed

subsection \<open>Points behind the globe\<close>

lemma tr_transition_fields:
  "tr_worldSize (tr_transition ext) = worldSize_transition"
  "tr_center (tr_transition ext) = \<lparr>lng = 0, lat = 0\<rparr>"
  "tr_point (tr_transition ext)
     = \<lparr>point_x = worldSize_transition / 2, point_y = worldSize_transition / 2\<rparr>"
  "tr_zoom (tr_transition ext) = 5.5"
  "tr_pixelsPerMercatorPixel (tr_transition ext) = 1"
  "tr_angle (tr_transition ext) = 0" "tr_pitch (tr_transition ext) = 0"
  "tr_cameraToCenterDistance (tr_transition ext) = 1" "tr_pixelsPerMeter (tr_transition ext) = 1"
  by (simp_all add: tr_transition_def tr_transition_base_def)

lemma worldSize_transition_pos: "0 < worldSize_transition"
  by (simp add: worldSize_transition_def)

lemma csLatLngToECEF_norm:
  assumes h: "csLatLngToECEF ext (cos a) (sin a) l None = (x, y, z)"
  shows "sqrt (x * x + y * y + z * z) = \<bar>GLOBE_RADIUS ext\<bar>"
proof -
  define R where "R = GLOBE_RADIUS ext"
  define b where "b = degToRad l"
  from h have x: "x = cos a * sin b * R" and y: "y = - sin a * R" and z: "z = cos a * cos b * R"
    by (simp_all add: csLatLngToECEF_def Let_def R_def b_def)
  have e1: "sin b * sin b = 1 - cos b * cos b" and e2: "sin a * sin a = 1 - cos a * cos a"
    using sin_cos_squared_add3 [of a] sin_cos_squared_add3 [of b] by linarith+
  have "x * x + y * y + z * z = R * R"
    unfolding x y z by (simp add: algebra_simps e1 e2)
  then show ?thesis by (simp add: R_def)
qed

lemma cameraPositionInECEF_defined:
  assumes "- 90 \<le> lat (tr_center tr)" "lat (tr_center tr) \<le> 90"
    "glMatrix_EPSILON \<le> GLOBE_RADIUS ext"
  shows "\<exists>c. cameraPositionInECEF ext tr = Inr c"
proof -
  obtain x y z where c: "csLatLngToECEF ext (cos (degToRad (lat (tr_center tr))))
      (sin (degToRad (lat (tr_center tr)))) (lng (tr_center tr)) None = (x, y, z)"
    by (metis prod_cases3)
  have "0 < glMatrix_EPSILON" by (simp add: glMatrix_EPSILON_def)
  with assms have "\<bar>GLOBE_RADIUS ext\<bar> = GLOBE_RADIUS ext" by simp
  with csLatLngToECEF_norm[OF c] assms have "\<not> sqrt (x * x + y * y + z * z) < glMatrix_EPSILON"
    by simp
  then obtain r where r: "mat4_fromRotation (- tr_angle tr) (x, y, z) = Some r"
    by (simp add: Let_def)
  have l: "latLngToECEF ext (lat (tr_center tr)) (lng (tr_center tr)) None = Inr (x, y, z)"
    using assms c by (simp add: latLngToECEF_def)
  show ?thesis
    unfolding cameraPositionInECEF_def l by (simp only: sum.case r option.case Let_def) blast
qed

lemma GLOBE_RADIUS_EXTENT: "1 \<le> GLOBE_RADIUS EXTENT"
  using pi_less_4 by (simp add: GLOBE_RADIUS_def EXTENT_def field_simps)

lemma earthRadius_pos: "0 < earthRadius"
  by (simp add: earthRadius_def)

lemma camera_of_transition:
  "cameraPositionInECEF EXTENT (tr_transition EXTENT)
   = Inr (0, 0, GLOBE_RADIUS EXTENT + GLOBE_RADIUS EXTENT / earthRadius)"
proof -
  define R where "R = GLOBE_RADIUS EXTENT"
  have R1: "1 \<le> R" by (simp add: R_def GLOBE_RADIUS_EXTENT)
  then have R: "0 < R" and e: "\<not> R < glMatrix_EPSILON" by (simp_all add: glMatrix_EPSILON_def)
  have c: "latLngToECEF EXTENT 0 0 None = Inr (0, 0, R)"
    by (simp add: latLngToECEF_def csLatLngToECEF_def degToRad_def R_def)
  have r: "mat4_fromRotation 0 (0, 0, R) = Some mat4_identity"
    using R e by (simp add: Let_def mat4_identity_def)
  have r2: "mat4_fromRotation 0 (R, 0, 0) = Some mat4_identity"
    using R e by (simp add: Let_def mat4_identity_def)
  have g: "GLOBE_METERS_TO_ECEF EXTENT = R / earthRadius"
    by (simp add: GLOBE_METERS_TO_ECEF_def mercatorZfromAltitude_def R_def[symmetric])
  show ?thesis
    using R e by (simp add: cameraPositionInECEF_def tr_transition_fields c r r2 g mat4_identity_def
        R_def[symmetric])
qed

lemma vec3_angle_z_axis:
  assumes "0 < a" "b \<noteq> 0"
  shows "vec3_angle (0, 0, a) (0, 0, b) = (if 0 < b then 0 else pi)"
proof (cases "0 < b")
  case True
  with assms have "a * b / (a * b) = 1" by simp
  with True assms show ?thesis by (simp add: Let_def)
next
  case False
  with assms have b: "b < 0" by simp
  with assms have "a * b / (a * - b) = - 1" by simp
  with b assms show ?thesis by (simp add: Let_def abs_if)
qed

lemma tilt_at_center:
  "globeTiltAtLngLat EXTENT (tr_transition EXTENT) \<lparr>lng = 0, lat = 0\<rparr> = Inr 0"
proof -
  define R where "R = GLOBE_RADIUS EXTENT"
  have R: "0 < R" using GLOBE_RADIUS_EXTENT by (simp add: R_def)
  have c: "latLngToECEF EXTENT 0 0 None = Inr (0, 0, R)"
    by (simp add: latLngToECEF_def csLatLngToECEF_def degToRad_def R_def)
  have d: "0 < R / earthRadius" using R earthRadius_pos by simp
  have "vec3_sub (0, 0, R + R / earthRadius) (0, 0, R) = (0, 0, R / earthRadius)" by simp
  moreover have "vec3_angle (0, 0, R / earthRadius) (0, 0, R) = 0"
    using R d by (subst vec3_angle_z_axis) simp_all
  ultimately show ?thesis
    unfolding globeTiltAtLngLat_def camera_of_transition R_def[symmetric]
    by (simp only: LngLat.simps c sum.case Let_def)
qed

lemma tilt_at_antipode:
  "globeTiltAtLngLat EXTENT (tr_transition EXTENT) \<lparr>lng = 180, lat = 0\<rparr> = Inr pi"
proof -
  define R where "R = GLOBE_RADIUS EXTENT"
  have R: "0 < R" using GLOBE_RADIUS_EXTENT by (simp add: R_def)
  have c: "latLngToECEF EXTENT 0 180 None = Inr (0, 0, - R)"
    by (simp add: latLngToECEF_def csLatLngToECEF_def degToRad_def R_def)
  have d: "0 < R / earthRadius" using R earthRadius_pos by simp
  then have d2: "0 < R + R / earthRadius + R" using R by linarith
  have "vec3_sub (0, 0, R + R / earthRadius) (0, 0, - R) = (0, 0, R + R / earthRadius + R)"
    by simp
  moreover have "vec3_angle (0, 0, R + R / earthRadius + R) (0, 0, - R) = pi"
    using R d2 by (subst vec3_angle_z_axis) simp_all
  ultimately show ?thesis
    unfolding globeTiltAtLngLat_def camera_of_transition R_def[symmetric]
    by (simp only: LngLat.simps c sum.case Let_def)
qed

text \<open>Claim C8: \<^verbatim>\<open>isLngLatBehindGlobe\<close> returns true exactly when \<^verbatim>\<open>globeTiltAtLngLat\<close>
  returns an angle greater than \<open>\<pi>/2 \<sqdot> 1.01\<close>, and false exactly when it returns an angle
  that is not; both return (no assertion fails) for every view and point whose latitudes
  lie in \<open>[-90, 90]\<close>, the radius of the globe being at least the \<^verbatim>\<open>EPSILON\<close> of gl-matrix.\<close>
theorem isLngLatBehindGlobe_threshold:
  "(isLngLatBehindGlobe ext tr p = Inr True \<longleftrightarrow>
      (\<exists>tilt. globeTiltAtLngLat ext tr p = Inr tilt \<and> tilt > pi / 2 * 1.01))
   \<and> (isLngLatBehindGlobe ext tr p = Inr False \<longleftrightarrow>
      (\<exists>tilt. globeTiltAtLngLat ext tr p = Inr tilt \<and> tilt \<le> pi / 2 * 1.01))
   \<and> (- 90 \<le> lat p \<and> lat p \<le> 90 \<and> - 90 \<le> lat (tr_center tr) \<and> lat (tr_center tr) \<le> 90
        \<and> glMatrix_EPSILON \<le> GLOBE_RADIUS ext
      \<longrightarrow> (\<exists>tilt. globeTiltAtLngLat ext tr p = Inr tilt
                \<and> isLngLatBehindGlobe ext tr p = Inr (tilt > pi / 2 * 1.01)))"
proof (intro conjI impI)
  show "isLngLatBehindGlobe ext tr p = Inr True \<longleftrightarrow>
      (\<exists>tilt. globeTiltAtLngLat ext tr p = Inr tilt \<and> tilt > pi / 2 * 1.01)"
    by (auto simp add: isLngLatBehindGlobe_def split: sum.splits)
  show "isLngLatBehindGlobe ext tr p = Inr False \<longleftrightarrow>
      (\<exists>tilt. globeTiltAtLngLat ext tr p = Inr tilt \<and> tilt \<le> pi / 2 * 1.01)"
    by (auto simp add: isLngLatBehindGlobe_def split: sum.splits)
next
  assume h: "- 90 \<le> lat p \<and> lat p \<le> 90 \<and> - 90 \<le> lat (tr_center tr) \<and> lat (tr_center tr) \<le> 90
        \<and> glMatrix_EPSILON \<le> GLOBE_RADIUS ext"
  then obtain c where "cameraPositionInECEF ext tr = Inr c"
    using cameraPositionInECEF_defined by blast
  with h show "\<exists>tilt. globeTiltAtLngLat ext tr p = Inr tilt
                \<and> isLngLatBehindGlobe ext tr p = Inr (tilt > pi / 2 * 1.01)"
    by (simp add: isLngLatBehindGlobe_def globeTiltAtLngLat_def latLngToECEF_def Let_def)
qed

theorem isLngLatBehindGlobe_threshold_witness:
  "globeTiltAtLngLat EXTENT (tr_transition EXTENT) \<lparr>lng = 180, lat = 0\<rparr> = Inr pi
   \<and> isLngLatBehindGlobe EXTENT (tr_transition EXTENT) \<lparr>lng = 180, lat = 0\<rparr> = Inr True
   \<and> globeTiltAtLngLat EXTENT (tr_transition EXTENT) \<lparr>lng = 0, lat = 0\<rparr> = Inr 0
   \<and> isLngLatBehindGlobe EXTENT (tr_transition EXTENT) \<lparr>lng = 0, lat = 0\<rparr> = Inr False
   \<and> glMatrix_EPSILON \<le> GLOBE_RADIUS EXTENT"
  using isLngLatBehindGlobe_threshold [of EXTENT "tr_transition EXTENT" "\<lparr>lng = 180, lat = 0\<rparr>"]
    isLngLatBehindGlobe_threshold [of EXTENT "tr_transition EXTENT" "\<lparr>lng = 0, lat = 0\<rparr>"]
    tilt_at_center tilt_at_antipode GLOBE_RADIUS_EXTENT
  by (simp add: glMatrix_EPSILON_def)

subsection \<open>The box of a tile that contains the center of the view\<close>

lemma updateCorners_eq:
  "updateCorners cmin cmax cs m s =
     (foldl vec3_min cmin (map (\<lambda>c. vec3_scale (vec3_transformMat4 c m) s) cs),
      foldl vec3_max cmax (map (\<lambda>c. vec3_scale (vec3_transformMat4 c m) s) cs),
      map (\<lambda>c. vec3_scale (vec3_transformMat4 c m) s) cs)"
  by (induction cs arbitrary: cmin cmax) (simp_all add: Let_def)

lemma vidx_vec3_min: "vidx (vec3_min a b) d = min (vidx a d) (vidx b d)"
  by (cases a; cases b; cases d) simp_all

lemma vidx_vec3_max: "vidx (vec3_max a b) d = max (vidx a d) (vidx b d)"
  by (cases a; cases b; cases d) simp_all

lemma foldl_vec3_min_le_init: "vidx (foldl vec3_min b ps) d \<le> vidx b d"
proof (induction ps arbitrary: b)
  case Nil
  show ?case by simp
next
  case (Cons p ps)
  have "vidx (foldl vec3_min (vec3_min b p) ps) d \<le> vidx (vec3_min b p) d" by (rule Cons.IH)
  then show ?case by (simp add: vidx_vec3_min)
qed

lemma foldl_vec3_min_le: "p \<in> set ps \<Longrightarrow> vidx (foldl vec3_min b ps) d \<le> vidx p d"
proof (induction ps arbitrary: b)
  case Nil
  then show ?case by simp
next
  case (Cons q ps)
  show ?case
  proof (cases "p = q")
    case True
    have "vidx (foldl vec3_min (vec3_min b q) ps) d \<le> vidx (vec3_min b q) d"
      by (rule foldl_vec3_min_le_init)
    with True show ?thesis by (simp add: vidx_vec3_min)
  next
    case False
    with Cons.prems have "p \<in> set ps" by simp
    then show ?thesis using Cons.IH by simp
  qed
qed

lemma foldl_vec3_max_ge_init: "vidx b d \<le> vidx (foldl vec3_max b ps) d"
proof (induction ps arbitrary: b)
  case Nil
  show ?case by simp
next
  case (Cons p ps)
  have "vidx (vec3_max b p) d \<le> vidx (foldl vec3_max (vec3_max b p) ps) d" by (rule Cons.IH)
  then show ?case by (simp add: vidx_vec3_max)
qed

lemma foldl_vec3_max_ge: "p \<in> set ps \<Longrightarrow> vidx p d \<le> vidx (foldl vec3_max b ps) d"
proof (induction ps arbitrary: b)
  case Nil
  then show ?case by simp
next
  case (Cons q ps)
  show ?case
  proof (cases "p = q")
    case True
    have "vidx (vec3_max b q) d \<le> vidx (foldl vec3_max (vec3_max b q) ps) d"
      by (rule foldl_vec3_max_ge_init)
    with True show ?thesis by (simp add: vidx_vec3_max)
  next
    case False
    with Cons.prems have "p \<in> set ps" by simp
    then show ?thesis using Cons.IH by simp
  qed
qed

lemma vidx_vset2: "vidx (vset2 v z) D0 = vidx v D0" "vidx (vset2 v z) D1 = vidx v D1"
  "vidx (vset2 v z) D2 = z"
  by (cases v; simp)+

lemma aabb_center_case:
  assumes "1 < tile_z tileId" "contains (tileCornersToBounds tileId) (tr_center tr)"
  shows "aabbForTileOnGlobe ext tr numTiles tileId =
     Inr \<lparr>aabb_min = vec3_min (foldl vec3_min (Number_MAX_VALUE, Number_MAX_VALUE, Number_MAX_VALUE)
                                 (transformedCorners ext tr numTiles tileId))
                        (centerPoint tr numTiles),
          aabb_max = vec3_max (vset2 (foldl vec3_max (- Number_MAX_VALUE, - Number_MAX_VALUE, - Number_MAX_VALUE)
                                        (transformedCorners ext tr numTiles tileId)) 0)
                        (centerPoint tr numTiles)\<rparr>"
  using assms
  by (simp add: aabbForTileOnGlobe_def Let_def updateCorners_eq transformedCorners_def centerPoint_def)

lemma dot_unit_le_one:
  fixes n1 n2 n3 u1 u2 u3 :: real
  assumes "n1 * n1 + n2 * n2 + n3 * n3 = 1" "u1 * u1 + u2 * u2 + u3 * u3 = 1"
  shows "n1 * u1 + n2 * u2 + n3 * u3 \<le> 1"
proof -
  have "0 \<le> (n1 - u1) * (n1 - u1) + (n2 - u2) * (n2 - u2) + (n3 - u3) * (n3 - u3)"
    by (intro add_nonneg_nonneg) simp_all
  also have "\<dots> = (n1 * n1 + n2 * n2 + n3 * n3) + (u1 * u1 + u2 * u2 + u3 * u3)
                   - 2 * (n1 * u1 + n2 * u2 + n3 * u3)"
    by (simp add: algebra_simps)
  finally show ?thesis using assms by simp
qed

lemma unit_of_angles:
  fixes a b :: real
  shows "(cos a * sin b) * (cos a * sin b) + sin a * sin a + (cos a * cos b) * (cos a * cos b) = 1"
proof -
  have e1: "sin b * sin b = 1 - cos b * cos b" and e2: "sin a * sin a = 1 - cos a * cos a"
    using sin_cos_squared_add3 [of a] sin_cos_squared_add3 [of b] by linarith+
  show ?thesis by (simp add: algebra_simps e1 e2)
qed

lemma calculateGlobePosMatrix_value:
  "calculateGlobePosMatrix ext x y W lo la =
     (let k = globeECEFUnitsToPixelScale ext W; a = degToRad (- la); b = degToRad (- lo)
      in Mat4 (k * cos b) (k * sin a * sin b) (- (k * cos a * sin b)) 0
              0 (k * cos a) (k * sin a) 0
              (k * sin b) (- (k * sin a * cos b)) (k * cos a * cos b) 0
              x y (- W / (2 * pi)) 1)"
  by (simp add: calculateGlobePosMatrix_def mat4_identity_def Let_def)

lemma corner_below_plane:
  assumes ext: "0 < ext" and W: "0 < W" and n: "0 \<le> n"
  shows "vidx (vec3_scale (vec3_transformMat4 (csLatLngToECEF ext (cos \<phi>) (sin \<phi>) l None)
                 (calculateGlobePosMatrix ext x y W lo la)) (n / W)) D2 \<le> 0"
proof -
  define a where "a = degToRad (- la)"
  define b where "b = degToRad (- lo)"
  define g where "g = degToRad l"
  define R where "R = GLOBE_RADIUS ext"
  define k where "k = globeECEFUnitsToPixelScale ext W"
  have kR: "k * R = W / (2 * pi)"
    using ext by (simp add: k_def R_def globeECEFUnitsToPixelScale_def GLOBE_RADIUS_def Let_def)
  define d where "d = (- (cos a * sin b)) * (cos \<phi> * sin g) + (- sin a) * sin \<phi>
                        + (cos a * cos b) * (cos \<phi> * cos g)"
  have "d \<le> 1"
    unfolding d_def
    using dot_unit_le_one [of "- (cos a * sin b)" "- sin a" "cos a * cos b"
        "cos \<phi> * sin g" "sin \<phi>" "cos \<phi> * cos g"] unit_of_angles [of a b] unit_of_angles [of \<phi> g]
    by simp
  have z: "vidx (vec3_scale (vec3_transformMat4 (csLatLngToECEF ext (cos \<phi>) (sin \<phi>) l None)
                 (calculateGlobePosMatrix ext x y W lo la)) (n / W)) D2
           = (k * R * d - W / (2 * pi)) * (n / W)"
    by (simp add: calculateGlobePosMatrix_value csLatLngToECEF_def Let_def
        a_def[symmetric] b_def[symmetric] g_def[symmetric] R_def[symmetric] k_def[symmetric] d_def
        algebra_simps)
  have "(k * R * d - W / (2 * pi)) = W / (2 * pi) * (d - 1)"
    unfolding kR by (simp add: algebra_simps diff_divide_distrib)
  moreover have "W / (2 * pi) * (d - 1) \<le> 0"
    using W \<open>d \<le> 1\<close> by (intro mult_nonneg_nonpos) simp_all
  ultimately have "k * R * d - W / (2 * pi) \<le> 0" by (simp only:)
  moreover have "0 \<le> n / W" using W n by simp
  ultimately have "(k * R * d - W / (2 * pi)) * (n / W) \<le> 0"
    by (rule mult_nonpos_nonneg)
  then show ?thesis by (simp only: z)
qed

lemma corners_below_plane:
  assumes "tr_globeMatrix tr = calculateGlobeMatrix ext tr" "0 < ext" "0 < tr_worldSize tr"
    "0 \<le> numTiles" "p \<in> set (transformedCorners ext tr numTiles tileId)"
  shows "vidx p D2 \<le> 0"
  using assms corner_below_plane [of ext "tr_worldSize tr" numTiles]
  by (auto simp add: transformedCorners_def boundsToECEF_def Let_def calculateGlobeMatrix_def)

lemma shl1_2: "shl1 2 = 4"
  by (simp add: shl1_def)

lemma latFromMercatorY_half: "latFromMercatorY (1 / 2) = 0"
  by (simp add: latFromMercatorY_def arctan_one)

lemma arctan_exp_bounds:
  "0 < arctan (exp (- (pi / 2)))" "arctan (exp (- (pi / 2))) < pi / 4"
proof -
  show "0 < arctan (exp (- (pi / 2)))" by (simp add: zero_less_arctan_iff)
  have "exp (- (pi / 2)) < (1 :: real)" by simp
  then have "arctan (exp (- (pi / 2))) < arctan 1" by (simp only: arctan_less_iff)
  then show "arctan (exp (- (pi / 2))) < pi / 4" by (simp add: arctan_one)
qed

lemma south_radians:
  "degToRad (latFromMercatorY (3 / 4)) = 2 * arctan (exp (- (pi / 2))) - pi / 2"
  by (simp add: degToRad_def latFromMercatorY_def field_simps)

lemma south_bounds: "- 90 < latFromMercatorY (3 / 4)" "latFromMercatorY (3 / 4) < 0"
proof -
  have e: "latFromMercatorY (3 / 4) = 360 / pi * arctan (exp (- (pi / 2))) - 90"
    by (simp add: latFromMercatorY_def)
  have "0 < 360 / pi * arctan (exp (- (pi / 2)))"
    using arctan_exp_bounds(1) by simp
  then show "- 90 < latFromMercatorY (3 / 4)" unfolding e by simp
  have "360 / pi * arctan (exp (- (pi / 2))) < 360 / pi * (pi / 4)"
    using arctan_exp_bounds(2) by (intro mult_strict_left_mono) simp_all
  then show "latFromMercatorY (3 / 4) < 0" unfolding e by simp
qed

lemma bounds_tile_2_2_2:
  "tileCornersToBounds tile_2_2_2 =
     \<lparr>bounds_sw = \<lparr>lng = 0, lat = latFromMercatorY (3 / 4)\<rparr>, bounds_ne = \<lparr>lng = 90, lat = 0\<rparr>\<rparr>"
  by (simp add: tileCornersToBounds_def tile_2_2_2_def shl1_2 lngFromMercatorX_def
      latFromMercatorY_half)

lemma bounds_tile_2_3_2:
  "tileCornersToBounds tile_2_3_2 =
     \<lparr>bounds_sw = \<lparr>lng = 90, lat = latFromMercatorY (3 / 4)\<rparr>, bounds_ne = \<lparr>lng = 180, lat = 0\<rparr>\<rparr>"
  by (simp add: tileCornersToBounds_def tile_2_3_2_def shl1_2 lngFromMercatorX_def
      latFromMercatorY_half)

lemma arctan_exp_sixth: "arctan (exp (- (pi / 2))) < pi / 6"
proof -
  have "1 + pi / 2 \<le> exp (pi / 2)" by (rule exp_ge_add_one_self)
  then have "2 \<le> exp (pi / 2)" using pi_ge_two by linarith
  then have "exp (- (pi / 2)) \<le> 1 / 2" by (simp add: exp_minus field_simps)
  moreover have "sqrt 3 < sqrt 4" by (simp only: real_sqrt_less_iff)
  then have "sqrt 3 < 2" by simp
  then have "1 / 2 < 1 / sqrt 3" by (simp add: field_simps)
  ultimately have "exp (- (pi / 2)) < 1 / sqrt 3" by linarith
  then have "arctan (exp (- (pi / 2))) < arctan (1 / sqrt 3)" by (simp only: arctan_less_iff)
  moreover have "arctan (1 / sqrt 3) = pi / 6"
    by (rule arctan_unique) (simp_all add: tan_30)
  ultimately show ?thesis by simp
qed

lemma south_below_30: "latFromMercatorY (3 / 4) < - 30"
proof -
  have e: "latFromMercatorY (3 / 4) = 360 / pi * arctan (exp (- (pi / 2))) - 90"
    by (simp add: latFromMercatorY_def)
  have "360 / pi * arctan (exp (- (pi / 2))) < 360 / pi * (pi / 6)"
    using arctan_exp_sixth by (intro mult_strict_left_mono) simp_all
  then show ?thesis unfolding e by simp
qed

lemma tr_inside_fields:
  "tr_worldSize (tr_inside ext) = worldSize_transition"
  "tr_center (tr_inside ext) = \<lparr>lng = 45, lat = - 30\<rparr>"
  "tr_globeMatrix (tr_inside ext) = calculateGlobeMatrix ext (tr_inside ext)"
  by (simp_all add: tr_inside_def tr_inside_base_def calculateGlobeMatrix_def)

lemma inside_tile_2_2_2:
  "getWest (tileCornersToBounds tile_2_2_2) < 45 \<and> 45 < getEast (tileCornersToBounds tile_2_2_2)
   \<and> getSouth (tileCornersToBounds tile_2_2_2) < - 30
   \<and> - 30 < getNorth (tileCornersToBounds tile_2_2_2)"
  using south_below_30
  by (simp add: bounds_tile_2_2_2 getWest_def getEast_def getSouth_def getNorth_def)

lemma contains_tile_2_2_2: "contains (tileCornersToBounds tile_2_2_2) \<lparr>lng = 45, lat = - 30\<rparr>"
  using south_below_30 by (simp add: bounds_tile_2_2_2 contains_def)

lemma length_transformedCorners: "length (transformedCorners ext tr numTiles tileId) = 4"
  by (simp add: transformedCorners_def boundsToECEF_def Let_def)

lemma not_contains_tile_2_3_2: "\<not> contains (tileCornersToBounds tile_2_3_2) \<lparr>lng = 0, lat = 0\<rparr>"
  by (simp add: bounds_tile_2_3_2 contains_def)

text \<open>Claim C7: for a tile with \<open>z > 1\<close> whose rectangle contains the center of the view,
  \<^verbatim>\<open>aabbForTileOnGlobe\<close> returns a box that contains the four transformed and scaled
  corners of the tile and the world-space position of the center at height \<open>0\<close>.  The view
  is one whose globe matrix is the matrix that \<^verbatim>\<open>calculateGlobeMatrix\<close> builds for it, with
  a positive extent and world size and a number of tiles that is not negative: the code
  sets \<^verbatim>\<open>cornerMax[2]\<close> to \<open>0\<close> before it folds the center in, and that matrix places
  every point of the globe at or below the plane \<open>z = 0\<close>, so \<open>0\<close> bounds the corners from
  above and is the upper bound of the box on the third axis.\<close>
theorem aabb_center_case_box:
  assumes z: "1 < tile_z tileId" and c: "contains (tileCornersToBounds tileId) (tr_center tr)"
    and m: "tr_globeMatrix tr = calculateGlobeMatrix ext tr"
    and ext: "0 < ext" and w: "0 < tr_worldSize tr" and n: "0 \<le> numTiles"
  shows "\<exists>box. aabbForTileOnGlobe ext tr numTiles tileId = Inr box
     \<and> length (transformedCorners ext tr numTiles tileId) = 4
     \<and> (\<forall>p \<in> set (transformedCorners ext tr numTiles tileId). inBox p box)
     \<and> inBox (centerPoint tr numTiles) box
     \<and> vidx (aabb_max box) D2 = 0"
proof -
  define T where "T = transformedCorners ext tr numTiles tileId"
  define mx where "mx = Number_MAX_VALUE"
  define cp where "cp = centerPoint tr numTiles"
  define box where "box = \<lparr>aabb_min = vec3_min (foldl vec3_min (mx, mx, mx) T) cp,
          aabb_max = vec3_max (vset2 (foldl vec3_max (- mx, - mx, - mx) T) 0) cp\<rparr>"
  have r: "aabbForTileOnGlobe ext tr numTiles tileId = Inr box"
    unfolding box_def T_def mx_def cp_def by (rule aabb_center_case [OF z c])
  have len: "length T = 4" unfolding T_def by (rule length_transformedCorners)
  have cz: "vidx cp D2 = 0" by (simp add: cp_def centerPoint_def)
  have mz: "vidx (aabb_max box) D2 = 0"
    by (simp add: box_def vidx_vec3_max vidx_vset2 cz)
  have cin: "inBox cp box"
    by (simp add: inBox_def box_def vidx_vec3_max vidx_vec3_min vidx_vset2 cz)
  have corners: "inBox p box" if p: "p \<in> set T" for p
  proof -
    have lo: "vidx (aabb_min box) d \<le> vidx p d" for d
      using foldl_vec3_min_le [OF p, of "(mx, mx, mx)" d]
      by (simp add: box_def vidx_vec3_min min.coboundedI1)
    have hi0: "vidx p D0 \<le> vidx (aabb_max box) D0"
      using foldl_vec3_max_ge [OF p, of D0 "(- mx, - mx, - mx)"]
      by (simp add: box_def vidx_vec3_max vidx_vset2 max.coboundedI1)
    have hi1: "vidx p D1 \<le> vidx (aabb_max box) D1"
      using foldl_vec3_max_ge [OF p, of D1 "(- mx, - mx, - mx)"]
      by (simp add: box_def vidx_vec3_max vidx_vset2 max.coboundedI1)
    have "vidx p D2 \<le> 0"
      using p unfolding T_def by (intro corners_below_plane [OF m ext w n])
    then show ?thesis
      using lo hi0 hi1 mz by (simp add: inBox_def)
  qed
  show ?thesis
    using r len cin mz corners unfolding T_def cp_def by blast
qed

theorem aabb_center_case_box_witness:
  "1 < tile_z tile_2_2_2
   \<and> tr_center (tr_inside EXTENT) = \<lparr>lng = 45, lat = - 30\<rparr>
   \<and> getWest (tileCornersToBounds tile_2_2_2) < 45 \<and> 45 < getEast (tileCornersToBounds tile_2_2_2)
   \<and> getSouth (tileCornersToBounds tile_2_2_2) < - 30
   \<and> - 30 < getNorth (tileCornersToBounds tile_2_2_2)
   \<and> contains (tileCornersToBounds tile_2_2_2) (tr_center (tr_inside EXTENT))
   \<and> tr_globeMatrix (tr_inside EXTENT) = calculateGlobeMatrix EXTENT (tr_inside EXTENT)
   \<and> 0 < EXTENT \<and> 0 < tr_worldSize (tr_inside EXTENT) \<and> (0 :: real) \<le> 32
   \<and> (\<exists>box. aabbForTileOnGlobe EXTENT (tr_inside EXTENT) 32 tile_2_2_2 = Inr box
         \<and> length (transformedCorners EXTENT (tr_inside EXTENT) 32 tile_2_2_2) = 4
         \<and> (\<forall>p \<in> set (transformedCorners EXTENT (tr_inside EXTENT) 32 tile_2_2_2).
               inBox p box)
         \<and> inBox (centerPoint (tr_inside EXTENT) 32) box
         \<and> vidx (aabb_max box) D2 = 0)"
proof -
  have z: "1 < tile_z tile_2_2_2" by (simp add: tile_2_2_2_def)
  have ce: "tr_center (tr_inside EXTENT) = \<lparr>lng = 45, lat = - 30\<rparr>"
    by (rule tr_inside_fields)
  have c: "contains (tileCornersToBounds tile_2_2_2) (tr_center (tr_inside EXTENT))"
    using contains_tile_2_2_2 by (simp only: ce)
  have m: "tr_globeMatrix (tr_inside EXTENT) = calculateGlobeMatrix EXTENT (tr_inside EXTENT)"
    by (rule tr_inside_fields)
  have e: "0 < EXTENT" by (simp add: EXTENT_def)
  have w: "0 < tr_worldSize (tr_inside EXTENT)"
    using worldSize_transition_pos by (simp add: tr_inside_fields)
  have n: "(0 :: real) \<le> 32" by simp
  show ?thesis
    using z ce inside_tile_2_2_2 c m e w n aabb_center_case_box [OF z c m e w n] by blast
qed

subsection \<open>The box of a tile during the transition\<close>

lemma southRad_bounds: "- (pi / 2) < southRad" "southRad < 0"
  using arctan_exp_bounds by (simp_all add: southRad_def)

lemma southRad_trig: "0 < cos southRad" "sin southRad < 0" "- 1 < sin southRad"
proof -
  show c: "0 < cos southRad" using southRad_bounds by (intro cos_gt_zero_pi) simp_all
  show "sin southRad < 0" using southRad_bounds by (intro sin_less_zero) simp_all
  have "(sin southRad)\<^sup>2 + (cos southRad)\<^sup>2 = 1" by simp
  moreover have "0 < (cos southRad)\<^sup>2" using c by simp
  ultimately have "(sin southRad)\<^sup>2 < 1" by linarith
  then have "\<bar>sin southRad\<bar> < 1" by (simp add: abs_square_less_1)
  then show "- 1 < sin southRad" by simp
qed

lemma southRad_angle: "arccos (cos southRad) = - southRad"
  using southRad_bounds pi_gt_zero by (intro arccos_cos2) simp_all

lemma globe_matrix_transition:
  assumes "0 < ext"
  shows "tr_globeMatrix (tr_transition ext) =
     Mat4 (worldSize_transition / ext) 0 0 0
          0 (worldSize_transition / ext) 0 0
          0 0 (worldSize_transition / ext) 0
          (worldSize_transition / 2) (worldSize_transition / 2) (- worldSize_transition / (2 * pi)) 1"
  using assms
  by (simp add: tr_transition_def calculateGlobeMatrix_def calculateGlobePosMatrix_def
      tr_transition_base_def mat4_identity_def globeECEFUnitsToPixelScale_def degToRad_def Let_def)

lemma corners_tile_2_3_2:
  "boundsToECEF ext (tileCornersToBounds tile_2_3_2) =
     [(cos southRad * GLOBE_RADIUS ext, - sin southRad * GLOBE_RADIUS ext, 0),
      (0, - sin southRad * GLOBE_RADIUS ext, - (cos southRad * GLOBE_RADIUS ext)),
      (0, 0, - GLOBE_RADIUS ext),
      (GLOBE_RADIUS ext, 0, 0)]"
  by (simp add: bounds_tile_2_3_2 boundsToECEF_def Let_def getNorth_def getSouth_def getWest_def
      getEast_def csLatLngToECEF_def south_radians southRad_def[symmetric])
     (simp add: degToRad_def)

lemma transform_scale_transition:
  assumes "0 < ext"
  shows "vec3_scale (vec3_transformMat4 (x, y, z) (tr_globeMatrix (tr_transition ext)))
           (32 / worldSize_transition)
         = (32 * x / ext + 16, 32 * y / ext + 16, 32 * z / ext - 16 / pi)"
proof -
  define W where "W = worldSize_transition"
  have W: "0 < W" by (simp add: W_def worldSize_transition_pos)
  have "(W / ext * x + W / 2) * (32 / W) = 32 * x / ext + 16"
       "(W / ext * y + W / 2) * (32 / W) = 32 * y / ext + 16"
       "(W / ext * z + - W / (2 * pi)) * (32 / W) = 32 * z / ext - 16 / pi"
    using W assms by (simp_all add: field_simps)
  then show ?thesis
    by (simp add: globe_matrix_transition [OF assms] W_def)
qed

lemma transformed_tile_2_3_2:
  assumes "0 < ext"
  shows "transformedCorners ext (tr_transition ext) 32 tile_2_3_2 =
     [(16 * cos southRad / pi + 16, 16 - 16 * sin southRad / pi, - (16 / pi)),
      (16, 16 - 16 * sin southRad / pi, - (16 * cos southRad / pi) - 16 / pi),
      (16, 16, - (32 / pi)),
      (16 / pi + 16, 16, - (16 / pi))]"
proof -
  have e: "32 * (c * GLOBE_RADIUS ext) / ext = 16 * c / pi" for c
    using assms by (simp add: GLOBE_RADIUS_def)
  have e': "32 * GLOBE_RADIUS ext / ext = 16 / pi"
    using assms by (simp add: GLOBE_RADIUS_def)
  show ?thesis
    unfolding transformedCorners_def corners_tile_2_3_2 tr_transition_fields list.map
      transform_scale_transition [OF assms]
    using e e' [of ] by (simp add: e [of "- sin southRad", simplified] )
qed

lemma tan_pi_8_lower: "2 / 5 < tan (pi / 8)"
proof -
  define u where "u = tan (pi / 8)"
  have c1: "cos (pi / 8) \<noteq> 0"
    using cos_gt_zero_pi [of "pi / 8"] by simp
  have c2: "cos (2 * (pi / 8)) \<noteq> 0"
    using cos_gt_zero_pi [of "2 * (pi / 8)"] by simp
  have "tan (2 * (pi / 8)) = 2 * u / (1 - u\<^sup>2)"
    unfolding u_def by (rule tan_double [OF c1 c2])
  moreover have "tan (2 * (pi / 8)) = 1" using tan_45 by simp
  ultimately have e: "2 * u / (1 - u\<^sup>2) = 1" by simp
  then have n: "1 - u\<^sup>2 \<noteq> 0" by auto
  with e have q: "2 * u = 1 - u\<^sup>2" by (simp add: field_simps)
  have u0: "0 < u" unfolding u_def by (intro tan_gt_zero) simp_all
  show ?thesis
  proof (rule ccontr)
    assume "\<not> 2 / 5 < tan (pi / 8)"
    then have le: "u \<le> 2 / 5" by (simp add: u_def)
    with u0 have "u * u \<le> (2 / 5) * (2 / 5)" by (intro mult_mono) simp_all
    with le q show False by (simp add: power2_eq_square)
  qed
qed

lemma tile_center_y:
  "mercatorYfromLat (latFromMercatorY (3 / 4) / 2)
     = 1 / 2 - ln (tan (pi / 8 + arctan (exp (- (pi / 2))) / 2)) / (2 * pi)"
proof -
  have e: "pi / 4 + latFromMercatorY (3 / 4) / 2 * pi / 360 = pi / 8 + arctan (exp (- (pi / 2))) / 2"
    by (simp add: latFromMercatorY_def field_simps)
  show ?thesis
    unfolding mercatorYfromLat_def e by (simp add: field_simps)
qed

lemma tile_center_dy:
  "\<bar>1 / 2 - mercatorYfromLat (latFromMercatorY (3 / 4) / 2)\<bar> < 3 / 8"
proof -
  define \<theta> where "\<theta> = pi / 8 + arctan (exp (- (pi / 2))) / 2"
  have th: "pi / 8 < \<theta>" "\<theta> < pi / 4"
    using arctan_exp_bounds by (simp_all add: \<theta>_def)
  have "tan (pi / 8) < tan \<theta>" using th by (intro tan_monotone) simp_all
  then have lo: "2 / 5 < tan \<theta>" using tan_pi_8_lower by linarith
  have "tan \<theta> < tan (pi / 4)" using th by (intro tan_monotone) simp_all
  then have hi: "tan \<theta> < 1" by (simp add: tan_45)
  have "exp (- (3 / 2)) * (1 + 3 / 2) \<le> exp (- (3 / 2)) * exp (3 / 2 :: real)"
    by (intro mult_left_mono exp_ge_add_one_self) simp
  also have "\<dots> = 1" by (simp add: exp_minus)
  finally have "exp (- (3 / 2) :: real) \<le> 2 / 5" by simp
  with lo have "exp (- (3 / 2)) < tan \<theta>" by linarith
  then have "ln (exp (- (3 / 2))) < ln (tan \<theta>)" by (subst ln_less_cancel_iff) (use lo in simp_all)
  then have l1: "- (3 / 2) < ln (tan \<theta>)" by simp
  have l2: "ln (tan \<theta>) < 0" using lo hi by (intro ln_less_zero) simp_all
  have "\<bar>ln (tan \<theta>)\<bar> < 3 / 2" using l1 l2 by simp
  moreover have "3 / 2 \<le> 3 / 8 * (2 * pi)" using pi_ge_two by simp
  ultimately have "\<bar>ln (tan \<theta>)\<bar> < 3 / 8 * (2 * pi)" by linarith
  then have "\<bar>ln (tan \<theta>)\<bar> / (2 * pi) < 3 / 8" by (simp add: field_simps)
  then show ?thesis by (simp add: tile_center_y \<theta>_def[symmetric])
qed

lemma mercatorYfromLat_0: "mercatorYfromLat 0 = 1 / 2"
  by (simp add: mercatorYfromLat_def tan_45)

lemma clamp_tile_center:
  "clamp (latFromMercatorY (3 / 4) / 2) (- MAX_MERCATOR_LATITUDE) MAX_MERCATOR_LATITUDE
     = latFromMercatorY (3 / 4) / 2"
  using south_bounds by (simp add: clamp_def MAX_MERCATOR_LATITUDE_def)

lemma closest_arc_tile_2_3_2:
  assumes "0 < ext"
  shows "closestArcOfTile ext (tr_transition ext) 32 (tileCornersToBounds tile_2_3_2)
         = (1 / 2, 1 / 2, 3, (16, 16, - (16 / pi)))"
proof -
  have c0: "clamp 0 (- MAX_MERCATOR_LATITUDE) MAX_MERCATOR_LATITUDE = 0"
    by (simp add: clamp_def MAX_MERCATOR_LATITUDE_def)
  have g: "getCenter (tileCornersToBounds tile_2_3_2) = \<lparr>lng = 135, lat = latFromMercatorY (3 / 4) / 2\<rparr>"
    by (simp add: bounds_tile_2_3_2 getCenter_def)
  have s: "worldSize_transition / 2 * (32 / worldSize_transition) = 16"
      "- worldSize_transition / (2 * pi) * (32 / worldSize_transition) = - (16 / pi)"
    using worldSize_transition_pos by (simp_all add: field_simps)
  show ?thesis
    using tile_center_dy worldSize_transition_pos
    by (simp add: closestArcOfTile_def globe_matrix_transition [OF assms] tr_transition_fields
        Let_def g c0 clamp_tile_center mercatorXfromLng_def mercatorYfromLat_0 s)
qed

lemma phase_transition: "globeToMercatorTransition (11 / 2) = 1 / 2"
  by (simp add: transition_defs clamp_def)

lemma mercator_corners_tile_2_3_2:
  "mercatorTileCornersInCameraSpace tile_2_3_2 32 1 (1 / 2) (1 / 2)
     = [(24, 24, 0), (32, 24, 0), (24, 16, 0), (32, 16, 0)]"
  by (simp add: mercatorTileCornersInCameraSpace_def tile_2_3_2_def shl1_2 Let_def)

lemma arc_tile_fields:
  "arc_a arc_tile = (16 / pi, 0, 0)"
  "arc_angle arc_tile = - southRad"
proof -
  show "arc_a arc_tile = (16 / pi, 0, 0)"
    by (simp add: arc_tile_def new_Arc_def Let_def)
  have n1: "vec3_normalize (16 / pi, 0, 0) = (1, 0, 0)"
    by (simp add: Let_def real_sqrt_divide)
  have len_gen: "16 * c / pi * (16 * c / pi) + - (16 * s / pi) * - (16 * s / pi) + 0 * 0
        = (16 / pi) * (16 / pi)" if "s * s + c * c = 1" for s c :: real
  proof -
    have "16 * c / pi * (16 * c / pi) + - (16 * s / pi) * - (16 * s / pi) + 0 * 0
          = (16 / pi) * (16 / pi) * (s * s + c * c)"
      by (simp add: algebra_simps add_divide_distrib)
    then show ?thesis using that by simp
  qed
  have len: "16 * cos southRad / pi * (16 * cos southRad / pi)
        + - (16 * sin southRad / pi) * - (16 * sin southRad / pi) + 0 * 0 = (16 / pi) * (16 / pi)"
    by (rule len_gen) (use sin_cos_squared_add3 [of southRad] in linarith)
  have n2: "vec3_normalize (16 * cos southRad / pi, - (16 * sin southRad / pi), 0)
            = (cos southRad, - sin southRad, 0)"
    unfolding vec3_normalize.simps len by (simp add: Let_def real_sqrt_divide)
  show "arc_angle arc_tile = - southRad"
    by (simp add: arc_tile_def new_Arc_def Let_def n1 n2 southRad_angle del: vec3_normalize.simps)
qed

lemma arc_tile_null: "localExtremum arc_tile D1 = None"
proof -
  have "0 < - southRad" "- southRad < pi / 2" using southRad_bounds by simp_all
  then have "1 < 1 / (- southRad) * 0.5 * pi" by (simp add: field_simps)
  then have "1 < localExtremum_t arc_tile D1"
    by (simp add: localExtremum_t_def arc_tile_fields)
  then show ?thesis by (simp add: localExtremum_def Let_def)
qed

lemma locals_as_arc_part:
  "aabbForTileOnGlobe_locals ext tr numTiles tileId =
     aabbArcPart ext tr numTiles tileId (tileCornersToBounds tileId)
       (transformedCorners ext tr numTiles tileId)
       (foldl vec3_min (Number_MAX_VALUE, Number_MAX_VALUE, Number_MAX_VALUE)
          (transformedCorners ext tr numTiles tileId))
       (foldl vec3_max (- Number_MAX_VALUE, - Number_MAX_VALUE, - Number_MAX_VALUE)
          (transformedCorners ext tr numTiles tileId))"
  by (simp add: aabbForTileOnGlobe_locals_def Let_def updateCorners_eq transformedCorners_def)

lemma aabbArcPart_in_transition:
  assumes "closestArcOfTile ext tr n bounds = (camX, camY, idx, C)"
    and "globeToMercatorTransition (tr_zoom tr) = ph" "0 < ph" "ph < 1"
    and "mercatorTileCornersInCameraSpace tileId n (tr_pixelsPerMercatorPixel tr) camX camY = mc"
  shows "aabbArcPart ext tr n tileId bounds cs cmin cmax =
     (let arcBounds = interpolateArray
            (initialArcBounds (new_Arc (cs ! idx) (cs ! ((idx + 1) mod 4)) C) (cs ! idx))
            (interpolateArray (mc ! idx) (mc ! ((idx + 1) mod 4)) 0.5) ph
      in \<lparr>loc_corners = map (\<lambda>i. interpolateArray (cs ! i) (mc ! i) ph) [0 ..< length cs],
          loc_closestArcIdx = idx,
          loc_arcBounds = arcBounds,
          loc_cornerMin = vec3_min (vset2 cmin (min (vidx (cs ! idx) D2)
                                                   (vidx (cs ! ((idx + 1) mod 4)) D2))) arcBounds,
          loc_cornerMax = vec3_max cmax arcBounds\<rparr>)"
  using assms by (simp add: aabbArcPart_def Let_def)

lemma aabb_arc_case:
  assumes "1 < tile_z tileId" "\<not> contains (tileCornersToBounds tileId) (tr_center tr)"
  shows "aabbForTileOnGlobe ext tr numTiles tileId =
     Inr \<lparr>aabb_min = loc_cornerMin (aabbForTileOnGlobe_locals ext tr numTiles tileId),
          aabb_max = loc_cornerMax (aabbForTileOnGlobe_locals ext tr numTiles tileId)\<rparr>"
  using assms
  by (simp add: aabbForTileOnGlobe_def aabbForTileOnGlobe_locals_def Let_def split: prod.splits)

lemma locals_tile_2_3_2:
  assumes ext: "0 < ext"
  defines "T \<equiv> transformedCorners ext (tr_transition ext) 32 tile_2_3_2"
  defines "l \<equiv> aabbForTileOnGlobe_locals ext (tr_transition ext) 32 tile_2_3_2"
  shows "loc_corners l ! 0 = interpolateArray (T ! 0) (24, 24, 0) (1 / 2)"
    and "loc_cornerMax l =
           vec3_max (foldl vec3_max (- Number_MAX_VALUE, - Number_MAX_VALUE, - Number_MAX_VALUE) T)
             (interpolateArray (initialArcBounds arc_tile (T ! 3)) (28, 20, 0) (1 / 2))"
proof -
  have len: "length T = 4" by (simp add: T_def transformed_tile_2_3_2 [OF ext])
  have T3: "T ! 3 = (16 / pi + 16, 16, - (16 / pi))"
    and T0: "T ! 0 = (16 * cos southRad / pi + 16, 16 - 16 * sin southRad / pi, - (16 / pi))"
    by (simp_all add: T_def transformed_tile_2_3_2 [OF ext])
  have arc: "new_Arc (T ! 3) (T ! 0) (16, 16, - (16 / pi)) = arc_tile"
    unfolding T3 T0 arc_tile_def ..
  have l: "l = aabbArcPart ext (tr_transition ext) 32 tile_2_3_2 (tileCornersToBounds tile_2_3_2) T
       (foldl vec3_min (Number_MAX_VALUE, Number_MAX_VALUE, Number_MAX_VALUE) T)
       (foldl vec3_max (- Number_MAX_VALUE, - Number_MAX_VALUE, - Number_MAX_VALUE) T)"
    by (simp add: l_def T_def locals_as_arc_part)
  have ph: "globeToMercatorTransition (tr_zoom (tr_transition ext)) = 1 / 2"
    by (simp add: tr_transition_fields phase_transition)
  have mc: "mercatorTileCornersInCameraSpace tile_2_3_2 32
              (tr_pixelsPerMercatorPixel (tr_transition ext)) (1 / 2) (1 / 2)
            = [(24, 24, 0), (32, 24, 0), (24, 16, 0), (32, 16, 0)]"
    by (simp add: tr_transition_fields mercator_corners_tile_2_3_2)
  note part = aabbArcPart_in_transition [OF closest_arc_tile_2_3_2 [OF ext] ph _ _ mc]
  have p: "aabbArcPart ext (tr_transition ext) 32 tile_2_3_2 (tileCornersToBounds tile_2_3_2) T cmin cmax
     = (let arcBounds = interpolateArray (initialArcBounds arc_tile (T ! 3)) (28, 20, 0) (1 / 2)
        in \<lparr>loc_corners = map (\<lambda>i. interpolateArray (T ! i)
                 ([(24, 24, 0), (32, 24, 0), (24, 16, 0), (32, 16, 0)] ! i) (1 / 2)) [0 ..< 4],
          loc_closestArcIdx = 3,
          loc_arcBounds = arcBounds,
          loc_cornerMin = vec3_min (vset2 cmin (min (vidx (T ! 3) D2) (vidx (T ! 0) D2))) arcBounds,
          loc_cornerMax = vec3_max cmax arcBounds\<rparr>)" for cmin cmax
    by (subst part) (simp_all add: len arc interpolate_def)
  show "loc_corners l ! 0 = interpolateArray (T ! 0) (24, 24, 0) (1 / 2)"
    unfolding l p by (simp add: Let_def del: interpolateArray.simps upt_Suc)
  show "loc_cornerMax l =
           vec3_max (foldl vec3_max (- Number_MAX_VALUE, - Number_MAX_VALUE, - Number_MAX_VALUE) T)
             (interpolateArray (initialArcBounds arc_tile (T ! 3)) (28, 20, 0) (1 / 2))"
    unfolding l p by (simp add: Let_def)
qed

lemma vidx_interpolateArray:
  "vidx (interpolateArray a b t) d = interpolate (vidx a d) (vidx b d) t"
  by (cases a; cases b; cases d) simp_all

lemma foldl_vec3_max_less:
  assumes "vidx b d < c" "\<forall>p \<in> set ps. vidx p d < c"
  shows "vidx (foldl vec3_max b ps) d < c"
  using assms by (induction ps arbitrary: b) (simp_all add: vidx_vec3_max)

lemma Number_MAX_VALUE_pos: "0 < Number_MAX_VALUE"
  by (simp add: Number_MAX_VALUE_def)

text \<open>Claim C1 fails on the code, which interpolates the corners and then never reads them.
  For the view \<open>tr_transition\<close> at zoom \<open>5.5\<close> (transition factor \<open>1/2\<close>), \<open>32\<close> tiles and the
  tile \<open>tile_2_3_2\<close>, which has \<open>z > 1\<close> and does not contain the center of the view: the
  south-west corner, interpolated towards its position \<open>(24, 24, 0)\<close> in the flat projection,
  is the first element of \<^verbatim>\<open>corners\<close> when the function returns, and its second
  coordinate is greater than that of the upper corner of the returned box.  This holds for
  every positive \<^verbatim>\<open>EXTENT\<close>.\<close>
theorem aabb_transition_corner_outside_box:
  assumes ext: "0 < ext"
  defines "l \<equiv> aabbForTileOnGlobe_locals ext (tr_transition ext) 32 tile_2_3_2"
  shows "1 < tile_z tile_2_3_2
     \<and> \<not> contains (tileCornersToBounds tile_2_3_2) (tr_center (tr_transition ext))
     \<and> globeToMercatorTransition (tr_zoom (tr_transition ext)) = 1 / 2
     \<and> aabbForTileOnGlobe ext (tr_transition ext) 32 tile_2_3_2
         = Inr \<lparr>aabb_min = loc_cornerMin l, aabb_max = loc_cornerMax l\<rparr>
     \<and> loc_corners l ! 0
         = interpolateArray (transformedCorners ext (tr_transition ext) 32 tile_2_3_2 ! 0)
             (24, 24, 0) (1 / 2)
     \<and> vidx (loc_cornerMax l) D1 < vidx (loc_corners l ! 0) D1
     \<and> \<not> inBox (loc_corners l ! 0) \<lparr>aabb_min = loc_cornerMin l, aabb_max = loc_cornerMax l\<rparr>"
proof -
  define T where "T = transformedCorners ext (tr_transition ext) 32 tile_2_3_2"
  define y0 where "y0 = 16 - 16 * sin southRad / pi"
  have z: "1 < tile_z tile_2_3_2" by (simp add: tile_2_3_2_def)
  have c: "\<not> contains (tileCornersToBounds tile_2_3_2) (tr_center (tr_transition ext))"
    using not_contains_tile_2_3_2 by (simp add: tr_transition_fields)
  have ph: "globeToMercatorTransition (tr_zoom (tr_transition ext)) = 1 / 2"
    by (simp add: tr_transition_fields phase_transition)
  have box: "aabbForTileOnGlobe ext (tr_transition ext) 32 tile_2_3_2
         = Inr \<lparr>aabb_min = loc_cornerMin l, aabb_max = loc_cornerMax l\<rparr>"
    unfolding l_def by (rule aabb_arc_case [OF z c])
  have T: "T = [(16 * cos southRad / pi + 16, y0, - (16 / pi)),
      (16, y0, - (16 * cos southRad / pi) - 16 / pi),
      (16, 16, - (32 / pi)),
      (16 / pi + 16, 16, - (16 / pi))]"
    unfolding T_def y0_def by (rule transformed_tile_2_3_2 [OF ext])
  have c0: "loc_corners l ! 0 = interpolateArray (T ! 0) (24, 24, 0) (1 / 2)"
    and cm: "loc_cornerMax l =
           vec3_max (foldl vec3_max (- Number_MAX_VALUE, - Number_MAX_VALUE, - Number_MAX_VALUE) T)
             (interpolateArray (initialArcBounds arc_tile (T ! 3)) (28, 20, 0) (1 / 2))"
    unfolding l_def T_def by (rule locals_tile_2_3_2 [OF ext])+
  have "0 < - (sin southRad) / pi" using southRad_trig pi_gt_zero by (intro divide_pos_pos) simp_all
  then have y0_lo: "16 < y0" by (simp add: y0_def)
  have "- sin southRad < pi / 2" using southRad_trig pi_ge_two by linarith
  then have "16 * (- sin southRad) / pi < 8" by (simp add: field_simps)
  then have y0_hi: "y0 < 24" by (simp add: y0_def)
  define c1 where "c1 = interpolate y0 24 (1 / 2)"
  have c1: "y0 < c1" "18 < c1" "16 < c1" "0 < c1"
    using y0_lo y0_hi by (simp_all add: c1_def interpolate_def)
  have corner: "vidx (loc_corners l ! 0) D1 = c1"
    by (simp add: c0 T c1_def)
  have "vidx (initialArcBounds arc_tile (T ! 3)) D1 = 16"
    by (simp add: initialArcBounds_def arc_tile_null js_or_def T)
  then have ab: "vidx (interpolateArray (initialArcBounds arc_tile (T ! 3)) (28, 20, 0) (1 / 2)) D1 = 18"
    by (simp add: vidx_interpolateArray interpolate_def)
  have "vidx (foldl vec3_max (- Number_MAX_VALUE, - Number_MAX_VALUE, - Number_MAX_VALUE) T) D1 < c1"
  proof (rule foldl_vec3_max_less)
    show "vidx (- Number_MAX_VALUE, - Number_MAX_VALUE, - Number_MAX_VALUE) D1 < c1"
      using Number_MAX_VALUE_pos c1 by simp
    show "\<forall>p \<in> set T. vidx p D1 < c1" using c1 by (simp add: T)
  qed
  then have "vidx (loc_cornerMax l) D1 < c1"
    using c1 by (simp add: cm vidx_vec3_max ab)
  then have out: "vidx (loc_cornerMax l) D1 < vidx (loc_corners l ! 0) D1"
    by (simp only: corner)
  then have "\<not> inBox (loc_corners l ! 0) \<lparr>aabb_min = loc_cornerMin l, aabb_max = loc_cornerMax l\<rparr>"
    by (simp add: inBox_def)
  with z c ph box c0 out show ?thesis unfolding T_def by blast
qed

theorem aabb_transition_corner_outside_box_witness:
  "0 < EXTENT
   \<and> \<not> contains (tileCornersToBounds tile_2_3_2) (tr_center (tr_transition EXTENT))
   \<and> globeToMercatorTransition (tr_zoom (tr_transition EXTENT)) = 1 / 2
   \<and> aabbForTileOnGlobe EXTENT (tr_transition EXTENT) 32 tile_2_3_2
       = Inr \<lparr>aabb_min = loc_cornerMin (aabbForTileOnGlobe_locals EXTENT (tr_transition EXTENT) 32 tile_2_3_2),
              aabb_max = loc_cornerMax (aabbForTileOnGlobe_locals EXTENT (tr_transition EXTENT) 32 tile_2_3_2)\<rparr>
   \<and> vidx (loc_cornerMax (aabbForTileOnGlobe_locals EXTENT (tr_transition EXTENT) 32 tile_2_3_2)) D1
       < vidx (loc_corners (aabbForTileOnGlobe_locals EXTENT (tr_transition EXTENT) 32 tile_2_3_2) ! 0) D1"
proof -
  have e: "0 < EXTENT" by (simp add: EXTENT_def)
  show ?thesis using e aabb_transition_corner_outside_box [OF e] by blast
qed

subsection \<open>The fallback for the extremum of the closest edge\<close>

text \<open>Claim C10: in \<^verbatim>\<open>aabbForTileOnGlobe\<close> the value of \<^verbatim>\<open>arcBounds\<close> on an axis starts as
  the coordinate of the first end point \<^verbatim>\<open>arcA\<close> of the closest edge when \<^verbatim>\<open>localExtremum\<close>
  returns \<^verbatim>\<open>null\<close> and also when it returns the number \<open>0\<close>, since the fallback is the
  operator \<^verbatim>\<open>||\<close>; any other returned number is kept.  This initial value, interpolated
  during the transition, is the \<^verbatim>\<open>arcBounds\<close> that the function folds into its box.\<close>
theorem arcBounds_fallback_on_null_or_zero:
  "(localExtremum arc d = None \<or> localExtremum arc d = Some 0
      \<longrightarrow> vidx (initialArcBounds arc arcA) d = vidx arcA d)
   \<and> (\<forall>v. localExtremum arc d = Some v \<and> v \<noteq> 0 \<longrightarrow> vidx (initialArcBounds arc arcA) d = v)
   \<and> (closestArcOfTile ext tr n bounds = (camX, camY, idx, C)
      \<longrightarrow> loc_arcBounds (aabbArcPart ext tr n tileId bounds cs cmin cmax) =
            (let ab = initialArcBounds (new_Arc (cs ! idx) (cs ! ((idx + 1) mod 4)) C) (cs ! idx);
                 ph = globeToMercatorTransition (tr_zoom tr);
                 mc = mercatorTileCornersInCameraSpace tileId n (tr_pixelsPerMercatorPixel tr)
                        camX camY
             in if 0 < ph \<and> ph < 1
                then interpolateArray ab (interpolateArray (mc ! idx) (mc ! ((idx + 1) mod 4)) 0.5) ph
                else ab))"
proof (intro conjI impI allI)
  show "vidx (initialArcBounds arc arcA) d = vidx arcA d"
    if "localExtremum arc d = None \<or> localExtremum arc d = Some 0"
    using that by (cases d) (auto simp add: initialArcBounds_def js_or_def)
  show "vidx (initialArcBounds arc arcA) d = v" if "localExtremum arc d = Some v \<and> v \<noteq> 0" for v
    using that by (cases d) (auto simp add: initialArcBounds_def js_or_def)
  show "loc_arcBounds (aabbArcPart ext tr n tileId bounds cs cmin cmax) =
            (let ab = initialArcBounds (new_Arc (cs ! idx) (cs ! ((idx + 1) mod 4)) C) (cs ! idx);
                 ph = globeToMercatorTransition (tr_zoom tr);
                 mc = mercatorTileCornersInCameraSpace tileId n (tr_pixelsPerMercatorPixel tr)
                        camX camY
             in if 0 < ph \<and> ph < 1
                then interpolateArray ab (interpolateArray (mc ! idx) (mc ! ((idx + 1) mod 4)) 0.5) ph
                else ab)"
    if "closestArcOfTile ext tr n bounds = (camX, camY, idx, C)"
    using that by (simp add: aabbArcPart_def Let_def)
qed

theorem arcBounds_fallback_on_null_or_zero_witness:
  "localExtremum arc_low D1 = Some 0
   \<and> vidx (initialArcBounds arc_low arc_low_p0) D1 = 1 - 2 / sqrt 3
   \<and> localExtremum arc_sym D1 = Some (2 / sqrt 3)
   \<and> vidx (initialArcBounds arc_sym (1, 1, 0)) D1 = 2 / sqrt 3
   \<and> localExtremum arc_tile D1 = None
   \<and> closestArcOfTile EXTENT (tr_transition EXTENT) 32 (tileCornersToBounds tile_2_3_2)
       = (1 / 2, 1 / 2, 3, (16, 16, - (16 / pi)))
   \<and> vidx (loc_arcBounds (aabbForTileOnGlobe_locals EXTENT (tr_transition EXTENT) 32 tile_2_3_2)) D1
       = 18"
proof -
  define T where "T = transformedCorners EXTENT (tr_transition EXTENT) 32 tile_2_3_2"
  have e: "0 < EXTENT" by (simp add: EXTENT_def)
  note cl = closest_arc_tile_2_3_2 [OF e]
  have T3: "T ! 3 = (16 / pi + 16, 16, - (16 / pi))"
    and T0: "T ! 0 = (16 * cos southRad / pi + 16, 16 - 16 * sin southRad / pi, - (16 / pi))"
    by (simp_all add: T_def transformed_tile_2_3_2 [OF e])
  have arc: "new_Arc (T ! 3) (T ! 0) (16, 16, - (16 / pi)) = arc_tile"
    unfolding T3 T0 arc_tile_def ..
  have ph: "globeToMercatorTransition (tr_zoom (tr_transition EXTENT)) = 1 / 2"
    by (simp add: tr_transition_fields phase_transition)
  have mc: "mercatorTileCornersInCameraSpace tile_2_3_2 32
              (tr_pixelsPerMercatorPixel (tr_transition EXTENT)) (1 / 2) (1 / 2)
            = [(24, 24, 0), (32, 24, 0), (24, 16, 0), (32, 16, 0)]"
    by (simp add: tr_transition_fields mercator_corners_tile_2_3_2)
  have a: "vidx (initialArcBounds arc_tile (T ! 3)) D1 = 16"
    using arcBounds_fallback_on_null_or_zero [of arc_tile D1 "T ! 3"] arc_tile_null by (simp add: T3)
  have "loc_arcBounds (aabbForTileOnGlobe_locals EXTENT (tr_transition EXTENT) 32 tile_2_3_2)
        = interpolateArray (initialArcBounds arc_tile (T ! 3)) (28, 20, 0) (1 / 2)"
    using arcBounds_fallback_on_null_or_zero [of _ _ _ EXTENT "tr_transition EXTENT" 32 "tileCornersToBounds tile_2_3_2"
        "1 / 2" "1 / 2" 3 "(16, 16, - (16 / pi))" tile_2_3_2 T] cl
    by (simp add: locals_as_arc_part T_def[symmetric] Let_def ph mc arc interpolate_def)
  then have l: "vidx (loc_arcBounds (aabbForTileOnGlobe_locals EXTENT (tr_transition EXTENT) 32
                  tile_2_3_2)) D1 = 18"
    by (simp add: vidx_interpolateArray a interpolate_def)
  show ?thesis
    using arcBounds_fallback_on_null_or_zero [of arc_low D1 arc_low_p0] arcBounds_fallback_on_null_or_zero [of arc_sym D1 "(1, 1, 0)"]
      arc_low_extremum arc_sym_extremum arc_tile_null cl l
    by (simp add: arc_low_p0_def)
qed

end
